theory Spec2Isabelle
  imports Complex_Main "HOL-Library.Sublist"
begin

section \<open>JavaScript values used by the two services\<close>

text \<open>
  A JavaScript number is a binary64 floating-point number. A finite one is modelled by the
  real number it denotes; the infinities and \<^verbatim>\<open>NaN\<close> are values of their own. A number field
  of a JSON payload holds the value of its numeral; where the code computes with it, that
  value is read as the double nearest to it (\<open>binary64\<close>, which leaves a double as it is).
\<close>

datatype number = Num real | PosInfinity | NegInfinity | NaN

text \<open>
  The binade of a positive real: the exponent \<open>e\<close> with \<open>2\<^sup>e \<le> y < 2\<^sup>e\<^sup>+\<^sup>1\<close>, found
  by halving a number from 2 on and doubling a number below 1.
\<close>

function halvings :: "real \<Rightarrow> nat" where
  "halvings x = (if 2 \<le> x then Suc (halvings (x / 2)) else 0)"
  by pat_completeness auto
termination
proof (relation "measure (\<lambda>x. nat \<lfloor>x\<rfloor>)")
  show "wf (measure (\<lambda>x::real. nat \<lfloor>x\<rfloor>))" by simp
next
  fix x :: real
  assume "2 \<le> x"
  then have "\<lfloor>x / 2\<rfloor> < \<lfloor>x\<rfloor>" and "0 < \<lfloor>x\<rfloor>" by linarith+
  then show "(x / 2, x) \<in> measure (\<lambda>x. nat \<lfloor>x\<rfloor>)" by simp
qed

function doublings :: "real \<Rightarrow> nat" where
  "doublings x = (if 0 < x \<and> x < 1 then Suc (doublings (2 * x)) else 0)"
  by pat_completeness auto
termination
proof (relation "measure (\<lambda>x. nat \<lceil>1 / x\<rceil>)")
  show "wf (measure (\<lambda>x::real. nat \<lceil>1 / x\<rceil>))" by simp
next
  fix x :: real
  assume a: "0 < x \<and> x < 1"
  define y where "y = 1 / x"
  from a have y: "1 < y" by (simp add: y_def)
  have half: "1 / (2 * x) = y / 2" by (simp add: y_def)
  from y have "2 \<le> \<lceil>y\<rceil>" by linarith
  then have "(2::real) \<le> of_int \<lceil>y\<rceil>" by linarith
  moreover have "y \<le> of_int \<lceil>y\<rceil>" by linarith
  ultimately have "y / 2 \<le> of_int \<lceil>y\<rceil> - 1" by linarith
  then have "y / 2 \<le> of_int (\<lceil>y\<rceil> - 1)" by simp
  then have "\<lceil>y / 2\<rceil> < \<lceil>y\<rceil>" by (simp only: ceiling_less_iff)
  moreover from y have "0 < \<lceil>y\<rceil>" by linarith
  ultimately have "nat \<lceil>1 / (2 * x)\<rceil> < nat \<lceil>1 / x\<rceil>"
    unfolding half y_def [symmetric] by linarith
  then show "(2 * x, x) \<in> measure (\<lambda>x. nat \<lceil>1 / x\<rceil>)" by simp
qed

declare halvings.simps [simp del] doublings.simps [simp del]

definition binade :: "real \<Rightarrow> int" where
  "binade y = (if 1 \<le> y then int (halvings y) else - int (doublings y))"

text \<open>The nearest integer, a tie going to the even one.\<close>

definition round_even :: "real \<Rightarrow> int" where
  "round_even y =
     (let f = \<lfloor>y\<rfloor>; r = y - of_int f
      in if r < 1 / 2 then f else if 1 / 2 < r then f + 1 else if even f then f else f + 1)"

text \<open>
  Rounding a real to binary64, to nearest and a tie to even: the significand has 53 bits,
  so the spacing of the doubles in the binade \<open>e\<close> is \<open>2\<^sup>e\<^sup>-\<^sup>5\<^sup>2\<close>; below the binade
  \<open>-1022\<close> the doubles are subnormal and keep its spacing; a result from \<open>2\<^sup>1\<^sup>0\<^sup>2\<^sup>4\<close> on is an
  infinity.
\<close>

definition binary64 :: "real \<Rightarrow> number" where
  "binary64 x =
     (if x = 0 then Num 0
      else let e = max (binade \<bar>x\<bar>) (- 1022);
               q = 2 powi (e - 52);
               r = of_int (round_even (\<bar>x\<bar> / q)) * q
           in if 2 ^ 1024 \<le> r then (if 0 < x then PosInfinity else NegInfinity)
              else Num (sgn x * r))"

text \<open>\<^verbatim>\<open>a + b\<close> and \<^verbatim>\<open>a - b\<close>: the exact result rounded; \<^verbatim>\<open>NaN\<close> when an operand is
  \<^verbatim>\<open>NaN\<close> or two infinities cancel.\<close>

fun js_add :: "number \<Rightarrow> number \<Rightarrow> number" where
  "js_add (Num a) (Num b) = binary64 (a + b)"
| "js_add NaN _ = NaN"
| "js_add _ NaN = NaN"
| "js_add PosInfinity NegInfinity = NaN"
| "js_add NegInfinity PosInfinity = NaN"
| "js_add PosInfinity _ = PosInfinity"
| "js_add NegInfinity _ = NegInfinity"
| "js_add _ PosInfinity = PosInfinity"
| "js_add _ NegInfinity = NegInfinity"

fun js_neg :: "number \<Rightarrow> number" where
  "js_neg (Num a) = Num (- a)"
| "js_neg PosInfinity = NegInfinity"
| "js_neg NegInfinity = PosInfinity"
| "js_neg NaN = NaN"

definition js_sub :: "number \<Rightarrow> number \<Rightarrow> number" where
  "js_sub a b = js_add a (js_neg b)"

text \<open>\<^verbatim>\<open>Math.abs\<close>, and \<^verbatim>\<open>a > b\<close>, which is false when an operand is \<^verbatim>\<open>NaN\<close>.\<close>

fun Math_abs :: "number \<Rightarrow> number" where
  "Math_abs (Num a) = Num \<bar>a\<bar>"
| "Math_abs PosInfinity = PosInfinity"
| "Math_abs NegInfinity = PosInfinity"
| "Math_abs NaN = NaN"

fun js_greater :: "number \<Rightarrow> number \<Rightarrow> bool" where
  "js_greater (Num a) (Num b) = (b < a)"
| "js_greater NaN _ = False"
| "js_greater _ NaN = False"
| "js_greater PosInfinity PosInfinity = False"
| "js_greater PosInfinity _ = True"
| "js_greater _ PosInfinity = False"
| "js_greater NegInfinity _ = False"
| "js_greater _ NegInfinity = True"

text \<open>\<^verbatim>\<open>Math.round\<close>: the nearest integer, a tie going up; an infinity and \<^verbatim>\<open>NaN\<close> stay.
  The nearest integer of a double is a double.\<close>

fun Math_round :: "number \<Rightarrow> number" where
  "Math_round (Num q) = Num (of_int \<lfloor>q + 1 / 2\<rfloor>)"
| "Math_round PosInfinity = PosInfinity"
| "Math_round NegInfinity = NegInfinity"
| "Math_round NaN = NaN"

text \<open>What JavaScript can throw in these services: an \<^verbatim>\<open>Error\<close> object with its message
  (a \<^verbatim>\<open>TypeError\<close> is one too), or, out of a rejected \<^verbatim>\<open>fetch\<close>, a value that is no
  \<^verbatim>\<open>Error\<close> object, kept as its \<^verbatim>\<open>JSON.stringify\<close> text.\<close>

datatype thrown = Error string | TypeError string | SyntaxError string | NonError string

fun instanceof_Error :: "thrown \<Rightarrow> bool" where
  "instanceof_Error (NonError _) = False"
| "instanceof_Error _ = True"

fun message :: "thrown \<Rightarrow> string" where
  "message (Error m) = m"
| "message (TypeError m) = m"
| "message (SyntaxError m) = m"
| "message (NonError m) = m"

subsection \<open>Strings\<close>

definition is_digit :: "char \<Rightarrow> bool" where
  "is_digit c = (48 \<le> (of_char c :: nat) \<and> (of_char c :: nat) \<le> 57)"

definition digit_val :: "char \<Rightarrow> nat" where
  "digit_val c = of_char c - 48"

definition digit_char :: "nat \<Rightarrow> char" where
  "digit_char d = ''0123456789'' ! d"

text \<open>The decimal text of a non-negative integer, as a template literal renders it.\<close>

fun show_nat :: "nat \<Rightarrow> string" where
  "show_nat n = (if n < 10 then [digit_char n] else show_nat (n div 10) @ [digit_char (n mod 10)])"

declare show_nat.simps [simp del]

definition digits_val :: "string \<Rightarrow> nat" where
  "digits_val ds = foldl (\<lambda>a c. 10 * a + digit_val c) 0 ds"

text \<open>\<^verbatim>\<open>String.prototype.includes\<close>: some suffix of the string starts with the token.\<close>

fun str_includes :: "string \<Rightarrow> string \<Rightarrow> bool" where
  "str_includes [] t = (t = [])"
| "str_includes (c # cs) t = (prefix t (c # cs) \<or> str_includes cs t)"

section \<open>RoutesService\<close>

subsection \<open>parseDurationSeconds\<close>

text \<open>
  The character class \<^verbatim>\<open>[0-9.]\<close> of the regular expression \<^verbatim>\<open>/([0-9.]+)s/\<close>.
\<close>

definition in_class :: "char \<Rightarrow> bool" where
  "in_class c = (is_digit c \<or> c = CHR ''.'')"

text \<open>
  \<^verbatim>\<open>/([0-9.]+)s/.exec(duration)\<close>, returning group 1 of the leftmost match. At a start
  position the greedy group takes the whole run of class characters; a shorter run is
  followed by a class character, never by \<^verbatim>\<open>s\<close>, so backtracking finds nothing more.
\<close>

fun regex_exec :: "string \<Rightarrow> string option" where
  "regex_exec [] = None"
| "regex_exec (c # cs) =
     (let run = takeWhile in_class (c # cs); rest = dropWhile in_class (c # cs)
      in if run \<noteq> [] \<and> (case rest of [] \<Rightarrow> False | r # _ \<Rightarrow> r = CHR ''s'')
         then Some run else regex_exec cs)"

text \<open>
  \<^verbatim>\<open>parseFloat\<close> on a string of digits and dots (all that group 1 can hold): the longest
  prefix that is a decimal literal, digits with an optional dot and more digits, or a dot
  followed by digits, gives the double nearest to the value of that literal, as the engine
  under Node.js computes it for a literal of any length; \<^verbatim>\<open>NaN\<close> when no prefix is one.
\<close>

definition parseFloat :: "string \<Rightarrow> number" where
  "parseFloat s =
     (let ip = takeWhile is_digit s; r = dropWhile is_digit s;
          fp = (case r of [] \<Rightarrow> [] | d # r' \<Rightarrow> if d = CHR ''.'' then takeWhile is_digit r' else [])
      in if ip = [] \<and> fp = [] then NaN
         else binary64 (of_nat (digits_val ip) + of_nat (digits_val fp) / 10 ^ length fp))"

text \<open>The argument is \<^verbatim>\<open>string | null | undefined\<close>; the empty string is falsy as well.\<close>

definition parseDurationSeconds :: "string option \<Rightarrow> number" where
  "parseDurationSeconds duration =
     (case duration of
        None \<Rightarrow> Num 0
      | Some d \<Rightarrow>
          if d = [] then Num 0
          else (case regex_exec d of
                  None \<Rightarrow> Num 0
                | Some m \<Rightarrow> Math_round (parseFloat m)))"

subsection \<open>Requests, results and backend payloads\<close>

datatype OptimizeBy = Time | Distance

record RoutePointInput =
  lat :: real
  lng :: real
  label :: "string option"

record OptimizeRouteParams =
  origin :: RoutePointInput
  destination :: RoutePointInput
  waypoints :: "RoutePointInput list"
  optimizeBy :: OptimizeBy
  departureTime :: "string option"

text \<open>An entry of \<^verbatim>\<open>ordered\<close> and an entry of \<^verbatim>\<open>legs\<close> of the result.\<close>

record OrderedPoint =
  o_label :: string
  o_lat :: real
  o_lng :: real

record RouteLeg =
  start_label :: string
  end_label :: string
  leg_distance_meters :: real
  leg_duration_seconds :: number

datatype Source = routes_preferred | directions_fallback

record OptimizeRouteResult =
  polyline :: string
  ordered :: "OrderedPoint list"
  distance_meters :: number
  duration_seconds :: number
  legs :: "RouteLeg list"
  source :: Source

text \<open>
  The outcome of \<^verbatim>\<open>await fetch(...)\<close>: the promise rejects with a thrown value, or it
  resolves to a response. The body of a response is no JSON at all (\<^verbatim>\<open>response.json()\<close>
  rejects), the JSON value \<^verbatim>\<open>null\<close>, or a JSON object, read through the fields the code
  uses, each optional.
\<close>

datatype 'p body = NotJson | JsonNull | Json 'p

record 'p Response =
  ok :: bool
  status :: nat
  statusText :: string
  body :: "'p body"

datatype 'p fetched = Rejected thrown | Resolved "'p Response"

text \<open>The Routes API payload: \<^verbatim>\<open>error.message\<close>, and \<^verbatim>\<open>routes\<close> with, for each route,
  \<^verbatim>\<open>distanceMeters\<close>, \<^verbatim>\<open>duration\<close>, \<^verbatim>\<open>polyline.encodedPolyline\<close>, \<^verbatim>\<open>legs\<close> and
  \<^verbatim>\<open>optimizedIntermediateWaypointIndex\<close>.\<close>

record ApiLeg =
  distanceMeters :: "real option"
  duration :: "string option"

record PreferredRoute =
  route_distanceMeters :: "real option"
  route_duration :: "string option"
  encodedPolyline :: "string option"
  route_legs :: "ApiLeg list option"
  optimizedIntermediateWaypointIndex :: "int list option"

record RoutesPayload =
  error_message :: "string option"
  routes :: "PreferredRoute list option"

text \<open>The Directions API payload: \<^verbatim>\<open>status\<close> and \<^verbatim>\<open>routes\<close> with, for each route,
  \<^verbatim>\<open>overview_polyline.points\<close>, \<^verbatim>\<open>waypoint_order\<close> and \<^verbatim>\<open>legs\<close>; for each leg
  \<^verbatim>\<open>distance.value\<close>, \<^verbatim>\<open>duration_in_traffic.value\<close> and \<^verbatim>\<open>duration.value\<close>. The two
  durations are whole seconds below \<open>10\<^sup>2\<^sup>1\<close>, which a template literal renders in plain
  decimal. \<^verbatim>\<open>error.message\<close> is in the payload type because a body may hold it; the code
  never reads it.\<close>

record DirectionsLeg =
  distance_value :: "real option"
  duration_in_traffic_value :: "nat option"
  duration_value :: "nat option"

record DirectionsRoute =
  overview_polyline_points :: "string option"
  waypoint_order :: "int list option"
  directions_legs :: "DirectionsLeg list option"

record DirectionsPayload =
  directions_error_message :: "string option"
  directions_status :: "string option"
  directions_routes :: "DirectionsRoute list option"

subsection \<open>Helpers of the JavaScript semantics\<close>

text \<open>\<^verbatim>\<open>a || b\<close> on an optional string (absent and empty are falsy) and on an optional
  number (absent and zero are falsy).\<close>

definition or_str :: "string option \<Rightarrow> string \<Rightarrow> string" where
  "or_str a b = (case a of None \<Rightarrow> b | Some s \<Rightarrow> if s = [] then b else s)"

definition or_number :: "real option \<Rightarrow> real \<Rightarrow> real" where
  "or_number a b = (case a of None \<Rightarrow> b | Some x \<Rightarrow> if x = 0 then b else x)"

text \<open>\<^verbatim>\<open>a || b\<close> where \<open>a\<close> is an optional number of the payload and \<open>b\<close> is computed.\<close>

definition or_computed :: "real option \<Rightarrow> number \<Rightarrow> number" where
  "or_computed a b = (case a of None \<Rightarrow> b | Some x \<Rightarrow> if binary64 x = Num 0 then b else binary64 x)"

definition or_nat :: "nat option \<Rightarrow> nat \<Rightarrow> nat" where
  "or_nat a b = (case a of None \<Rightarrow> b | Some x \<Rightarrow> if x = 0 then b else x)"

text \<open>\<^verbatim>\<open>xs[i]\<close> for a number \<open>i\<close> of a JSON payload: \<^verbatim>\<open>undefined\<close> outside the array.\<close>

definition js_nth :: "'a list \<Rightarrow> int \<Rightarrow> 'a option" where
  "js_nth xs i = (if 0 \<le> i \<and> i < int (length xs) then Some (xs ! nat i) else None)"

text \<open>\<^verbatim>\<open>xs[i]\<close> on an array whose entries may themselves be \<^verbatim>\<open>undefined\<close>.\<close>

definition js_index :: "'a option list \<Rightarrow> nat \<Rightarrow> 'a option" where
  "js_index xs i = (if i < length xs then xs ! i else None)"

text \<open>\<^verbatim>\<open>a || b\<close> on two points, \<^verbatim>\<open>undefined\<close> being the only falsy one.\<close>

definition or_point :: "'a option \<Rightarrow> 'a option \<Rightarrow> 'a option" where
  "or_point a b = (case a of None \<Rightarrow> b | Some x \<Rightarrow> Some x)"

text \<open>\<^verbatim>\<open>xs.map((x, idx) => f(x, idx))\<close> where the callback may throw: the first throw ends
  the map.\<close>

fun map_idx :: "(nat \<Rightarrow> 'a \<Rightarrow> thrown + 'b) \<Rightarrow> nat \<Rightarrow> 'a list \<Rightarrow> thrown + 'b list" where
  "map_idx f i [] = Inr []"
| "map_idx f i (x # xs) =
     (case f i x of
        Inl e \<Rightarrow> Inl e
      | Inr y \<Rightarrow> (case map_idx f (Suc i) xs of Inl e \<Rightarrow> Inl e | Inr ys \<Rightarrow> Inr (y # ys)))"

text \<open>\<^verbatim>\<open>await this.safeParse(response)\<close> followed by \<^verbatim>\<open>?.\<close>: \<^verbatim>\<open>undefined\<close> and \<^verbatim>\<open>null\<close>
  read alike.\<close>

definition safeParse :: "'p Response \<Rightarrow> 'p option" where
  "safeParse response = (case body response of Json p \<Rightarrow> Some p | _ \<Rightarrow> None)"

subsection \<open>Labels, legs and sums\<close>

definition defaultLabel :: "nat \<Rightarrow> nat \<Rightarrow> string" where
  "defaultLabel index n =
     (if index = 0 then ''Origin''
      else if int index = int n - 1 then ''Destination''
      else ''Stop '' @ show_nat index)"

text \<open>\<^verbatim>\<open>point.label\<close> on \<^verbatim>\<open>undefined\<close> is a \<^verbatim>\<open>TypeError\<close>.\<close>

definition normalizePoint :: "RoutePointInput option \<Rightarrow> nat \<Rightarrow> nat \<Rightarrow> thrown + OrderedPoint" where
  "normalizePoint point index n =
     (case point of
        None \<Rightarrow> Inl (TypeError ''Cannot read properties of undefined (reading label)'')
      | Some p \<Rightarrow>
          Inr \<lparr>o_label = or_str (label p) (defaultLabel index n),
               o_lat = lat p, o_lng = lng p\<rparr>)"

definition mapLeg :: "RoutePointInput option list \<Rightarrow> nat \<Rightarrow> ApiLeg \<Rightarrow> thrown + RouteLeg" where
  "mapLeg orderedPoints idx leg =
     (let startPoint = or_point (js_index orderedPoints idx) (js_index orderedPoints 0);
          endPoint = or_point (js_index orderedPoints (idx + 1))
                       (js_index orderedPoints (length orderedPoints - 1))
      in case normalizePoint startPoint idx (length orderedPoints) of
           Inl e \<Rightarrow> Inl e
         | Inr s \<Rightarrow>
             (case normalizePoint endPoint (idx + 1) (length orderedPoints) of
                Inl e \<Rightarrow> Inl e
              | Inr t \<Rightarrow>
                  Inr \<lparr>start_label = o_label s, end_label = o_label t,
                       leg_distance_meters = or_number (distanceMeters leg) 0,
                       leg_duration_seconds = parseDurationSeconds (duration leg)\<rparr>))"

definition mapLegs :: "ApiLeg list \<Rightarrow> RoutePointInput option list \<Rightarrow> thrown + RouteLeg list" where
  "mapLegs legsFromApi orderedPoints = map_idx (mapLeg orderedPoints) 0 legsFromApi"

definition sumDistances :: "RouteLeg list \<Rightarrow> number" where
  "sumDistances ls =
     foldl (\<lambda>acc leg. js_add acc (binary64 (leg_distance_meters leg))) (Num 0) ls"

definition sumDurations :: "RouteLeg list \<Rightarrow> number" where
  "sumDurations ls = foldl (\<lambda>acc leg. js_add acc (leg_duration_seconds leg)) (Num 0) ls"

subsection \<open>The two backends\<close>

text \<open>
  The network is a parameter: each backend path takes the outcome of the one \<^verbatim>\<open>fetch\<close>
  it makes. Building the request (the JSON body or the query string, the departure time)
  reads the parameters and throws nothing; what the server makes of it is in the outcome.
\<close>

definition ordered_points :: "OptimizeRouteParams \<Rightarrow> int list \<Rightarrow> RoutePointInput option list" where
  "ordered_points params order =
     Some (origin params) # map (js_nth (waypoints params)) order @ [Some (destination params)]"

definition identity_order :: "OptimizeRouteParams \<Rightarrow> int list" where
  "identity_order params = map int [0..<length (waypoints params)]"

definition computeRoutesPreferred ::
  "RoutesPayload fetched \<Rightarrow> OptimizeRouteParams \<Rightarrow> thrown + OptimizeRouteResult" where
  "computeRoutesPreferred fetch params =
     (case fetch of
        Rejected e \<Rightarrow> Inl e
      | Resolved response \<Rightarrow>
          if \<not> ok response then
            (let errorPayload = safeParse response;
                 upstream = or_str (case errorPayload of None \<Rightarrow> None | Some p \<Rightarrow> error_message p)
                              (statusText response)
             in Inl (Error (''Routes Preferred API error: '' @ upstream @ '' (HTTP ''
                             @ show_nat (status response) @ '')'')))
          else
            (case body response of
               NotJson \<Rightarrow> Inl (SyntaxError ''Unexpected token in JSON'')
             | JsonNull \<Rightarrow> Inl (Error ''Routes Preferred API returned no routes'')
             | Json payload \<Rightarrow>
                 (case routes payload of
                    None \<Rightarrow> Inl (Error ''Routes Preferred API returned no routes'')
                  | Some [] \<Rightarrow> Inl (Error ''Routes Preferred API returned no routes'')
                  | Some (route # _) \<Rightarrow>
                      (let optimizedOrder =
                             (case optimizedIntermediateWaypointIndex route of
                                Some p \<Rightarrow> p | None \<Rightarrow> identity_order params);
                           orderedPoints = ordered_points params optimizedOrder;
                           legsFromApi = (case route_legs route of Some l \<Rightarrow> l | None \<Rightarrow> [])
                       in case mapLegs legsFromApi orderedPoints of
                            Inl e \<Rightarrow> Inl e
                          | Inr ls \<Rightarrow>
                              (case map_idx (\<lambda>idx point. normalizePoint point idx (length orderedPoints))
                                      0 orderedPoints of
                                 Inl e \<Rightarrow> Inl e
                               | Inr ps \<Rightarrow>
                                   Inr \<lparr>polyline = or_str (encodedPolyline route) [],
                                        ordered = ps,
                                        distance_meters =
                                          or_computed (route_distanceMeters route) (sumDistances ls),
                                        duration_seconds =
                                          parseDurationSeconds (route_duration route),
                                        legs = ls,
                                        source = routes_preferred\<rparr>)))))"

text \<open>The leg a Directions leg is turned into before \<^verbatim>\<open>mapLegs\<close>.\<close>

definition directions_leg :: "DirectionsLeg \<Rightarrow> ApiLeg" where
  "directions_leg leg =
     \<lparr>distanceMeters = Some (or_number (distance_value leg) 0),
      duration = Some (show_nat (or_nat (duration_in_traffic_value leg)
                                  (or_nat (duration_value leg) 0)) @ ''s'')\<rparr>"

text \<open>The error of a payload whose \<^verbatim>\<open>status\<close> is not \<^verbatim>\<open>"OK"\<close>, or whose \<^verbatim>\<open>routes\<close> is
  no array or an empty one.\<close>

definition directions_error :: "DirectionsPayload \<Rightarrow> thrown" where
  "directions_error data =
     Error (''Directions API error: '' @ or_str (directions_status data) ''UNKNOWN'')"

definition computeDirectionsFallback ::
  "DirectionsPayload fetched \<Rightarrow> OptimizeRouteParams \<Rightarrow> thrown + OptimizeRouteResult" where
  "computeDirectionsFallback fetch params =
     (case fetch of
        Rejected e \<Rightarrow> Inl e
      | Resolved response \<Rightarrow>
          if \<not> ok response then
            Inl (Error (''Directions API HTTP error '' @ show_nat (status response) @ '': ''
                        @ statusText response))
          else
            (case body response of
               NotJson \<Rightarrow> Inl (SyntaxError ''Unexpected token in JSON'')
             | JsonNull \<Rightarrow> Inl (TypeError ''Cannot read properties of null (reading status)'')
             | Json data \<Rightarrow>
                 (case (if directions_status data \<noteq> Some ''OK'' then None
                        else directions_routes data) of
                    None \<Rightarrow> Inl (directions_error data)
                  | Some [] \<Rightarrow> Inl (directions_error data)
                  | Some (route # _) \<Rightarrow>
                      (let waypointOrder =
                             (case waypoint_order route of
                                Some p \<Rightarrow> p | None \<Rightarrow> identity_order params);
                           orderedPoints = ordered_points params waypointOrder;
                           legsFromApi = (case directions_legs route of Some l \<Rightarrow> l | None \<Rightarrow> [])
                       in case mapLegs (map directions_leg legsFromApi) orderedPoints of
                            Inl e \<Rightarrow> Inl e
                          | Inr ls \<Rightarrow>
                              (let totalDistance = sumDistances ls;
                                   totalDuration = sumDurations ls
                               in case map_idx (\<lambda>idx point. normalizePoint point idx (length orderedPoints))
                                         0 orderedPoints of
                                    Inl e \<Rightarrow> Inl e
                                  | Inr ps \<Rightarrow>
                                      Inr \<lparr>polyline = or_str (overview_polyline_points route) [],
                                           ordered = ps,
                                           distance_meters = totalDistance,
                                           duration_seconds = totalDuration,
                                           legs = ls,
                                           source = directions_fallback\<rparr>)))))"

subsection \<open>optimizeRoute\<close>

text \<open>
  What \<^verbatim>\<open>optimizeRoute\<close> does besides returning: the backend paths it invokes, each with
  the parameters it was given, and the line it logs.
\<close>

datatype event =
    Invoke_preferred OptimizeRouteParams
  | Invoke_fallback OptimizeRouteParams
  | Logger_error string thrown

definition optimizeRoute ::
  "RoutesPayload fetched \<Rightarrow> DirectionsPayload fetched \<Rightarrow> OptimizeRouteParams
     \<Rightarrow> event list \<times> (thrown + OptimizeRouteResult)" where
  "optimizeRoute fetch_routes fetch_directions params =
     (case computeRoutesPreferred fetch_routes params of
        Inr result \<Rightarrow> ([Invoke_preferred params], Inr result)
      | Inl error \<Rightarrow>
          ([Invoke_preferred params,
            Logger_error ''Routes Preferred failed, falling back to Directions API'' error,
            Invoke_fallback params],
           computeDirectionsFallback fetch_directions params))"

section \<open>TextSearchService\<close>

record LatLng =
  latitude :: "real option"
  longitude :: "real option"

record Viewport =
  low :: "LatLng option"
  high :: "LatLng option"

text \<open>\<^verbatim>\<open>RawPlace\<close>; \<open>displayName_text\<close> is \<^verbatim>\<open>displayName?.text\<close>.\<close>

record RawPlace =
  raw_name :: "string option"
  raw_id :: "string option"
  displayName_text :: "string option"
  formattedAddress :: "string option"
  location :: "LatLng option"
  types :: "string list option"
  viewport :: "Viewport option"

record TextSearchCandidate =
  place_id :: string
  name :: string
  formatted_address :: string
  c_lat :: real
  c_lng :: real
  c_types :: "string list"
  is_area :: bool

record TextSearchResult =
  resolved :: bool
  candidates :: "TextSearchCandidate list"

record PlacesPayload =
  places_error_message :: "string option"
  places :: "RawPlace list option"

record SearchBody =
  req_textQuery :: string
  req_maxResultCount :: int
  req_languageCode :: string

definition areaTokens :: "string list" where
  "areaTokens =
     [''administrative_area_level'', ''locality'', ''sublocality'', ''postal_code'', ''country'',
      ''plus_code'', ''colloquial_area'', ''neighborhood'', ''political'']"

text \<open>\<^verbatim>\<open>x ?? 0\<close>.\<close>

definition nullish0 :: "real option \<Rightarrow> real" where
  "nullish0 x = (case x of None \<Rightarrow> 0 | Some v \<Rightarrow> v)"

text \<open>\<^verbatim>\<open>Math.abs(high - low)\<close> on two coordinates of the payload.\<close>

definition coord_span :: "real \<Rightarrow> real \<Rightarrow> number" where
  "coord_span hi lo = Math_abs (js_sub (binary64 hi) (binary64 lo))"

definition isArea :: "string list \<Rightarrow> Viewport option \<Rightarrow> bool" where
  "isArea ts vp =
     (let matchesType = list_ex (\<lambda>type. list_ex (\<lambda>token. str_includes type token) areaTokens) ts
      in if matchesType then True
         else (case vp of
                 None \<Rightarrow> False
               | Some v \<Rightarrow>
                   (case low v of
                      None \<Rightarrow> False
                    | Some l \<Rightarrow>
                        (case high v of
                           None \<Rightarrow> False
                         | Some h \<Rightarrow>
                             (let latSpan = coord_span (nullish0 (latitude h)) (nullish0 (latitude l));
                                  lngSpan = coord_span (nullish0 (longitude h)) (nullish0 (longitude l))
                              in if js_greater latSpan (binary64 0.05)
                                    \<or> js_greater lngSpan (binary64 0.05)
                                 then True else False)))))"

text \<open>\<^verbatim>\<open>name.replace("places/", "")\<close> removes the first occurrence, which for a name that
  starts with it is the prefix.\<close>

definition extractPlaceId :: "RawPlace \<Rightarrow> string" where
  "extractPlaceId place =
     (case raw_name place of
        Some n \<Rightarrow> if n \<noteq> [] \<and> prefix ''places/'' n then drop (length ''places/'') n
                  else or_str (raw_id place) []
      | None \<Rightarrow> or_str (raw_id place) [])"

definition transformCandidate :: "RawPlace \<Rightarrow> nat \<Rightarrow> TextSearchCandidate" where
  "transformCandidate place index =
     (let lat = nullish0 (case location place of None \<Rightarrow> None | Some l \<Rightarrow> latitude l);
          lng = nullish0 (case location place of None \<Rightarrow> None | Some l \<Rightarrow> longitude l);
          ts = (case types place of None \<Rightarrow> [] | Some t \<Rightarrow> t);
          area = isArea ts (viewport place)
      in \<lparr>place_id = extractPlaceId place,
          name = or_str (displayName_text place)
                   (or_str (raw_name place) (''Candidate '' @ show_nat (index + 1))),
          formatted_address = or_str (formattedAddress place) [],
          c_lat = lat, c_lng = lng, c_types = ts, is_area = area\<rparr>)"

text \<open>\<^verbatim>\<open>places.map((place, index) => this.transformCandidate(place, index))\<close>.\<close>

definition transformCandidates :: "RawPlace list \<Rightarrow> TextSearchCandidate list" where
  "transformCandidates ps = map (\<lambda>(index, place). transformCandidate place index) (enumerate 0 ps)"

text \<open>The \<^verbatim>\<open>try\<close> block of \<^verbatim>\<open>search\<close>, after the request is sent, on the outcome of
  its \<^verbatim>\<open>fetch\<close>.\<close>

definition search_try :: "PlacesPayload fetched \<Rightarrow> thrown + TextSearchResult" where
  "search_try fetch =
     (case fetch of
        Rejected e \<Rightarrow> Inl e
      | Resolved response \<Rightarrow>
          if \<not> ok response then
            (let errorBody = safeParse response;
                 upstreamMessage =
                   or_str (case errorBody of None \<Rightarrow> None | Some p \<Rightarrow> places_error_message p)
                     (statusText response)
             in Inl (Error (''Places text search failed: '' @ upstreamMessage @ '' (HTTP ''
                             @ show_nat (status response) @ '')'')))
          else
            (case body response of
               NotJson \<Rightarrow> Inl (SyntaxError ''Unexpected token in JSON'')
             | JsonNull \<Rightarrow> Inr \<lparr>resolved = False, candidates = []\<rparr>
             | Json payload \<Rightarrow>
                 (let ps = (case places payload of None \<Rightarrow> [] | Some l \<Rightarrow> l);
                      cs = transformCandidates ps;
                      res = (length cs = 1 \<and> \<not> is_area (cs ! 0))
                  in Inr \<lparr>resolved = res, candidates = cs\<rparr>)))"

text \<open>What \<^verbatim>\<open>search\<close> does besides returning: the request it posts and the line it logs.\<close>

datatype search_event = Post_places SearchBody | Logged string thrown

text \<open>\<^verbatim>\<open>search\<close>: the request, the \<^verbatim>\<open>try\<close> block, and the \<^verbatim>\<open>catch\<close> that logs and throws
  again, wrapping what is no \<^verbatim>\<open>Error\<close> object. An absent \<open>maxResults\<close> is 5, an absent
  \<open>languageCode\<close> is \<^verbatim>\<open>"en"\<close>.\<close>

definition search ::
  "PlacesPayload fetched \<Rightarrow> string \<Rightarrow> int option \<Rightarrow> string option
     \<Rightarrow> search_event list \<times> (thrown + TextSearchResult)" where
  "search fetch query maxResults languageCode =
     (let request = \<lparr>req_textQuery = query,
                      req_maxResultCount = max 1 (min 20 (case maxResults of None \<Rightarrow> 5 | Some m \<Rightarrow> m)),
                      req_languageCode = (case languageCode of None \<Rightarrow> ''en'' | Some l \<Rightarrow> l)\<rparr>
      in case search_try fetch of
           Inr result \<Rightarrow> ([Post_places request], Inr result)
         | Inl error \<Rightarrow>
             ([Post_places request, Logged ''places_text_search error'' error],
              if instanceof_Error error then Inl error
              else Inl (Error (''Places text search failed: '' @ message error))))"

section \<open>The inputs of the repository's tests\<close>

definition ok_response :: "'p body \<Rightarrow> 'p Response" where
  "ok_response b = \<lparr>ok = True, status = 200, statusText = ''OK'', body = b\<rparr>"

definition cafe :: RawPlace where
  "cafe = \<lparr>raw_name = Some ''places/abc'', raw_id = None,
            displayName_text = Some ''Cafe 123'', formattedAddress = Some ''123 Main St'',
            location = Some \<lparr>latitude = Some 1.1, longitude = Some 2.2\<rparr>,
            types = Some [''point_of_interest'', ''establishment''], viewport = None\<rparr>"

definition test_waypoints :: "RoutePointInput list" where
  "test_waypoints = [\<lparr>lat = 2, lng = 3, label = Some ''Stop A''\<rparr>,
                     \<lparr>lat = 3, lng = 4, label = Some ''Stop B''\<rparr>]"

definition test_params :: OptimizeRouteParams where
  "test_params = \<lparr>origin = \<lparr>lat = 1, lng = 2, label = Some ''Origin''\<rparr>,
                   destination = \<lparr>lat = 4, lng = 5, label = Some ''Destination''\<rparr>,
                   waypoints = test_waypoints, optimizeBy = Time, departureTime = Some ''now''\<rparr>"

section \<open>Notions the properties are stated with\<close>

text \<open>The point leg \<open>idx\<close> starts from and the point it ends at: the ordered point at
  \<open>idx\<close>, at \<open>idx + 1\<close>, when there is one; if not, the origin, the destination.\<close>

definition leg_start :: "OptimizeRouteParams \<Rightarrow> int list \<Rightarrow> nat \<Rightarrow> RoutePointInput" where
  "leg_start params order idx =
     (case js_index (ordered_points params order) idx of
        Some p \<Rightarrow> p | None \<Rightarrow> origin params)"

definition leg_end :: "OptimizeRouteParams \<Rightarrow> int list \<Rightarrow> nat \<Rightarrow> RoutePointInput" where
  "leg_end params order idx =
     (case js_index (ordered_points params order) (idx + 1) of
        Some p \<Rightarrow> p | None \<Rightarrow> destination params)"

definition leg_of :: "OptimizeRouteParams \<Rightarrow> int list \<Rightarrow> nat \<Rightarrow> ApiLeg \<Rightarrow> RouteLeg" where
  "leg_of params order idx leg =
     \<lparr>start_label = or_str (label (leg_start params order idx)) (defaultLabel idx (length order + 2)),
      end_label = or_str (label (leg_end params order idx)) (defaultLabel (idx + 1) (length order + 2)),
      leg_distance_meters = or_number (distanceMeters leg) 0,
      leg_duration_seconds = parseDurationSeconds (duration leg)\<rparr>"

text \<open>A point sequence as the result shows it: each point with its label, or with the
  default label of its position.\<close>

definition labelled :: "RoutePointInput list \<Rightarrow> OrderedPoint list" where
  "labelled ps =
     map (\<lambda>(idx, p). \<lparr>o_label = or_str (label p) (defaultLabel idx (length ps)),
                       o_lat = lat p, o_lng = lng p\<rparr>)
       (enumerate 0 ps)"

text \<open>An index sequence into the waypoint list of the request.\<close>

definition valid_order :: "OptimizeRouteParams \<Rightarrow> int list \<Rightarrow> bool" where
  "valid_order params order = list_all (\<lambda>i. 0 \<le> i \<and> i < int (length (waypoints params))) order"

text \<open>A leg without distance and duration.\<close>

definition no_leg :: ApiLeg where
  "no_leg = \<lparr>distanceMeters = None, duration = None\<rparr>"

text \<open>The index sequence each backend path works with.\<close>

definition preferred_order :: "OptimizeRouteParams \<Rightarrow> PreferredRoute \<Rightarrow> int list" where
  "preferred_order params route =
     (case optimizedIntermediateWaypointIndex route of Some p \<Rightarrow> p | None \<Rightarrow> identity_order params)"

definition fallback_order :: "OptimizeRouteParams \<Rightarrow> DirectionsRoute \<Rightarrow> int list" where
  "fallback_order params route =
     (case waypoint_order route of Some p \<Rightarrow> p | None \<Rightarrow> identity_order params)"

definition preferred_legs :: "PreferredRoute \<Rightarrow> ApiLeg list" where
  "preferred_legs route = (case route_legs route of Some l \<Rightarrow> l | None \<Rightarrow> [])"

definition fallback_legs :: "DirectionsRoute \<Rightarrow> ApiLeg list" where
  "fallback_legs route = map directions_leg (case directions_legs route of Some l \<Rightarrow> l | None \<Rightarrow> [])"

text \<open>The responses of the tests of \<^verbatim>\<open>RoutesService\<close>, and two more: a route without
  legs, and a fallback response that is refused with a message in its body.\<close>

definition test_route :: PreferredRoute where
  "test_route = \<lparr>route_distanceMeters = Some 12000, route_duration = Some ''800s'',
      encodedPolyline = Some ''abc123'',
      route_legs = Some [\<lparr>distanceMeters = Some 4000, duration = Some ''250s''\<rparr>,
                         \<lparr>distanceMeters = Some 5000, duration = Some ''300s''\<rparr>,
                         \<lparr>distanceMeters = Some 3000, duration = Some ''250s''\<rparr>],
      optimizedIntermediateWaypointIndex = Some [1, 0]\<rparr>"

definition test_preferred :: "RoutesPayload fetched" where
  "test_preferred = Resolved (ok_response (Json \<lparr>error_message = None, routes = Some [test_route]\<rparr>))"

definition test_preferred_500 :: "RoutesPayload fetched" where
  "test_preferred_500 =
     Resolved \<lparr>ok = False, status = 500, statusText = ''Server Error'',
               body = Json \<lparr>error_message = Some ''boom'', routes = None\<rparr>\<rparr>"

definition test_directions_route :: DirectionsRoute where
  "test_directions_route = \<lparr>overview_polyline_points = Some ''fallback'', waypoint_order = Some [1, 0],
      directions_legs = Some
        [\<lparr>distance_value = Some 3000, duration_in_traffic_value = Some 200, duration_value = None\<rparr>,
         \<lparr>distance_value = Some 4000, duration_in_traffic_value = Some 250, duration_value = None\<rparr>,
         \<lparr>distance_value = Some 5000, duration_in_traffic_value = Some 300, duration_value = None\<rparr>]\<rparr>"

definition test_fallback :: "DirectionsPayload fetched" where
  "test_fallback = Resolved (ok_response (Json \<lparr>directions_error_message = None,
      directions_status = Some ''OK'', directions_routes = Some [test_directions_route]\<rparr>))"

definition test_fallback_403 :: "DirectionsPayload fetched" where
  "test_fallback_403 =
     Resolved \<lparr>ok = False, status = 403, statusText = ''Forbidden'',
               body = Json \<lparr>directions_error_message = Some ''API key invalid'',
                            directions_status = None, directions_routes = None\<rparr>\<rparr>"

definition test_route_no_legs :: PreferredRoute where
  "test_route_no_legs = \<lparr>route_distanceMeters = Some 12000, route_duration = Some ''800s'',
      encodedPolyline = Some ''abc123'', route_legs = None,
      optimizedIntermediateWaypointIndex = Some [1, 0]\<rparr>"

text \<open>The refused place search of the third test of \<^verbatim>\<open>TextSearchService\<close>.\<close>

definition test_places_403 :: "PlacesPayload fetched" where
  "test_places_403 =
     Resolved \<lparr>ok = False, status = 403, statusText = ''Forbidden'',
               body = Json \<lparr>places_error_message = Some ''API key invalid'', places = None\<rparr>\<rparr>"

section \<open>Properties of TextSearchService\<close>

lemma str_includes_sublist: "str_includes s t \<longleftrightarrow> sublist t s"
  by (induction s) (auto simp: sublist_Cons_right)

lemma length_transformCandidates: "length (transformCandidates ps) = length ps"
  by (simp add: transformCandidates_def)

lemma nth_transformCandidates:
  "i < length ps \<Longrightarrow> transformCandidates ps ! i = transformCandidate (ps ! i) i"
  by (simp add: transformCandidates_def nth_enumerate_eq)

lemma is_area_transformCandidate:
  "is_area (transformCandidate place index)
     = isArea (case types place of None \<Rightarrow> [] | Some ts \<Rightarrow> ts) (viewport place)"
  by (simp add: transformCandidate_def Let_def)

lemma search_Inr:
  "search fetch query maxResults languageCode = (logged, Inr result) \<Longrightarrow> search_try fetch = Inr result"
  by (auto simp: search_def Let_def split: sum.splits if_splits)

lemma search_try_resolved:
  "search_try fetch = Inr result \<Longrightarrow>
     resolved result \<longleftrightarrow> (\<exists>c. candidates result = [c] \<and> \<not> is_area c)"
  by (auto simp: search_try_def Let_def length_Suc_conv split: fetched.splits if_splits body.splits)

lemma search_try_shape:
  assumes "search_try fetch = Inr result"
  shows "\<exists>response ps. fetch = Resolved response \<and> ok response
      \<and> (body response = JsonNull \<and> ps = []
         \<or> (\<exists>payload. body response = Json payload
               \<and> ps = (case places payload of None \<Rightarrow> [] | Some l \<Rightarrow> l)))
      \<and> candidates result = transformCandidates ps"
  using assms
  by (auto simp: search_try_def Let_def transformCandidates_def
        split: fetched.splits if_splits body.splits)

lemma search_ok_places:
  "ok response \<Longrightarrow> body response = Json payload \<Longrightarrow> places payload = Some ps \<Longrightarrow>
   snd (search (Resolved response) query maxResults languageCode)
     = Inr \<lparr>resolved = (length ps = 1 \<and> \<not> is_area (transformCandidate (ps ! 0) 0)),
            candidates = transformCandidates ps\<rparr>"
  by (auto simp: search_def search_try_def Let_def length_transformCandidates nth_transformCandidates)

lemma one_precise_place:
  "(length ps = 1 \<and> \<not> is_area (transformCandidate (ps ! 0) 0))
     \<longleftrightarrow> (\<exists>p. ps = [p] \<and> \<not> isArea (case types p of None \<Rightarrow> [] | Some ts \<Rightarrow> ts) (viewport p))"
  by (auto simp: length_Suc_conv is_area_transformCandidate)

lemma one_precise_candidate:
  "(\<exists>c. transformCandidates ps = [c] \<and> \<not> is_area c)
     \<longleftrightarrow> (\<exists>p. ps = [p] \<and> \<not> isArea (case types p of None \<Rightarrow> [] | Some ts \<Rightarrow> ts) (viewport p))"
proof -
  have "(\<exists>c. transformCandidates ps = [c] \<and> \<not> is_area c)
      \<longleftrightarrow> (length ps = 1 \<and> \<not> is_area (transformCandidate (ps ! 0) 0))"
  proof
    assume "\<exists>c. transformCandidates ps = [c] \<and> \<not> is_area c"
    then obtain c where c: "transformCandidates ps = [c]" "\<not> is_area c" by blast
    from c(1) have len: "length ps = 1"
      using length_transformCandidates [of ps] by simp
    with c nth_transformCandidates [of 0 ps]
    show "length ps = 1 \<and> \<not> is_area (transformCandidate (ps ! 0) 0)" by simp
  next
    assume a: "length ps = 1 \<and> \<not> is_area (transformCandidate (ps ! 0) 0)"
    then obtain p where "ps = [p]" by (auto simp: length_Suc_conv)
    with a show "\<exists>c. transformCandidates ps = [c] \<and> \<not> is_area c"
      by (simp add: transformCandidates_def)
  qed
  then show ?thesis by (simp only: one_precise_place)
qed

lemmas binary64_eval = binary64_def binade_def round_even_def halvings.simps doublings.simps
  Let_def

lemmas search_eval = search_def search_try_def Let_def transformCandidates_def transformCandidate_def
  isArea_def areaTokens_def extractPlaceId_def or_str_def nullish0_def safeParse_def ok_response_def

lemma isArea_iff:
  "isArea ts vp \<longleftrightarrow>
     (\<exists>t \<in> set ts. \<exists>token \<in> set areaTokens. sublist token t)
   \<or> (\<exists>v l h. vp = Some v \<and> low v = Some l \<and> high v = Some h
        \<and> (js_greater (coord_span (nullish0 (latitude h)) (nullish0 (latitude l))) (binary64 0.05)
           \<or> js_greater (coord_span (nullish0 (longitude h)) (nullish0 (longitude l))) (binary64 0.05)))"
  by (auto simp: isArea_def Let_def list_ex_iff str_includes_sublist split: option.splits)

lemma threshold: "binary64 0.05 = Num (3602879701896397 / 2 ^ 56)"
  by (simp add: binary64_eval)

lemma coord_span_finite:
  "binary64 hi = Num a \<Longrightarrow> binary64 lo = Num b \<Longrightarrow> coord_span hi lo = Math_abs (binary64 (a - b))"
  by (simp add: coord_span_def js_sub_def)

text \<open>
  C6, amended. The candidate that \<^verbatim>\<open>transformCandidate\<close> derives from a raw place is an area
  exactly when one of its type tags contains one of the nine area tokens as a substring, or
  its viewport has both corners and the latitude span or the longitude span between them
  (a missing coordinate read as 0) is greater than the double nearest to 0.05, where a span
  is the absolute value of the binary64 difference of the two coordinates: the difference
  of the two doubles, rounded. Either condition alone is enough.
\<close>

theorem is_area_iff:
  "(is_area (transformCandidate place index) \<longleftrightarrow>
      (\<exists>t \<in> set (case types place of None \<Rightarrow> [] | Some ts \<Rightarrow> ts).
         \<exists>token \<in> {''administrative_area_level'', ''locality'', ''sublocality'', ''postal_code'',
                      ''country'', ''plus_code'', ''colloquial_area'', ''neighborhood'', ''political''}.
           sublist token t)
    \<or> (\<exists>v l h. viewport place = Some v \<and> low v = Some l \<and> high v = Some h
         \<and> (js_greater (coord_span (nullish0 (latitude h)) (nullish0 (latitude l))) (binary64 0.05)
            \<or> js_greater (coord_span (nullish0 (longitude h)) (nullish0 (longitude l)))
                 (binary64 0.05))))
   \<and> binary64 0.05 = Num (3602879701896397 / 2 ^ 56)
   \<and> (\<forall>hi lo a b. binary64 hi = Num a \<and> binary64 lo = Num b
         \<longrightarrow> coord_span hi lo = Math_abs (binary64 (a - b)))"
proof -
  have "set areaTokens = {''administrative_area_level'', ''locality'', ''sublocality'', ''postal_code'',
                     ''country'', ''plus_code'', ''colloquial_area'', ''neighborhood'', ''political''}"
    by (simp add: areaTokens_def)
  then have "is_area (transformCandidate place index) \<longleftrightarrow>
      (\<exists>t \<in> set (case types place of None \<Rightarrow> [] | Some ts \<Rightarrow> ts).
         \<exists>token \<in> {''administrative_area_level'', ''locality'', ''sublocality'', ''postal_code'',
                      ''country'', ''plus_code'', ''colloquial_area'', ''neighborhood'', ''political''}.
           sublist token t)
    \<or> (\<exists>v l h. viewport place = Some v \<and> low v = Some l \<and> high v = Some h
         \<and> (js_greater (coord_span (nullish0 (latitude h)) (nullish0 (latitude l))) (binary64 0.05)
            \<or> js_greater (coord_span (nullish0 (longitude h)) (nullish0 (longitude l)))
                 (binary64 0.05)))"
    using isArea_iff [of "case types place of None \<Rightarrow> [] | Some ts \<Rightarrow> ts" "viewport place"]
    by (simp add: is_area_transformCandidate)
  moreover have "\<forall>hi lo a b. binary64 hi = Num a \<and> binary64 lo = Num b
         \<longrightarrow> coord_span hi lo = Math_abs (binary64 (a - b))"
    using coord_span_finite by blast
  ultimately show ?thesis using threshold by (intro conjI)
qed

text \<open>A tag that only contains a token; a viewport from latitude 2 to 2.06 without an
  area tag; a viewport from 2 to 2.05, whose span, the rounded difference of the doubles,
  is below the double nearest to 0.05.\<close>

theorem is_area_iff_witness:
  "is_area (transformCandidate \<lparr>raw_name = None, raw_id = None, displayName_text = None,
       formattedAddress = None, location = None, types = Some [''sublocality_level_1''],
       viewport = None\<rparr> 0)
   \<and> is_area (transformCandidate \<lparr>raw_name = None, raw_id = None, displayName_text = None,
       formattedAddress = None, location = None, types = Some [''establishment''],
       viewport = Some \<lparr>low = Some \<lparr>latitude = Some 2, longitude = Some 3\<rparr>,
                         high = Some \<lparr>latitude = Some 2.06, longitude = Some 3\<rparr>\<rparr>\<rparr> 0)
   \<and> \<not> is_area (transformCandidate \<lparr>raw_name = None, raw_id = None, displayName_text = None,
       formattedAddress = None, location = None, types = Some [''establishment''],
       viewport = Some \<lparr>low = Some \<lparr>latitude = Some 2, longitude = Some 3\<rparr>,
                         high = Some \<lparr>latitude = Some 2.05, longitude = Some 3\<rparr>\<rparr>\<rparr> 0)"
proof -
  have a: "sublist ''sublocality'' ''sublocality_level_1''"
    by (simp add: sublist_append_rightI [of "''sublocality''" "''_level_1''", simplified])
  have s1: "coord_span 2.06 2 = Num (135107988821115 / 2 ^ 51)"
    by (simp add: coord_span_def js_sub_def binary64_eval)
  have s2: "coord_span 2.05 2 = Num (56294995342131 / 2 ^ 50)"
    by (simp add: coord_span_def js_sub_def binary64_eval)
  have s3: "coord_span 3 3 = Num 0"
    by (simp add: coord_span_def js_sub_def binary64_eval)
  note t = is_area_iff [THEN conjunct1]
  show ?thesis
    apply (intro conjI)
    subgoal using a by (simp add: t)
    subgoal using s1 s3 threshold by (simp add: t nullish0_def)
    subgoal using s2 s3 threshold by (simp add: t nullish0_def sublist_code)
    done
qed

text \<open>C6 as stated, with the spans as real differences compared with 0.05, fails both ways.
  From latitude 1 to 1.05 the span does not exceed 0.05, yet the candidate is an area: the
  double nearest to 1.05 lies above it. From 0 to the double nearest to 0.05 the span exceeds
  0.05, yet the candidate is no area: that double is the threshold itself. The type tag
  of both places contains no area token.\<close>

theorem is_area_counterexample:
  "is_area (transformCandidate \<lparr>raw_name = None, raw_id = None, displayName_text = None,
       formattedAddress = None, location = None, types = Some [''establishment''],
       viewport = Some \<lparr>low = Some \<lparr>latitude = Some 1, longitude = Some 3\<rparr>,
                         high = Some \<lparr>latitude = Some 1.05, longitude = Some 3\<rparr>\<rparr>\<rparr> 0)
   \<and> \<not> 0.05 < \<bar>(1.05::real) - 1\<bar> \<and> \<not> 0.05 < \<bar>(3::real) - 3\<bar>
   \<and> \<not> is_area (transformCandidate \<lparr>raw_name = None, raw_id = None, displayName_text = None,
       formattedAddress = None, location = None, types = Some [''establishment''],
       viewport = Some \<lparr>low = Some \<lparr>latitude = Some 0, longitude = Some 3\<rparr>,
                         high = Some \<lparr>latitude = Some (3602879701896397 / 2 ^ 56),
                                      longitude = Some 3\<rparr>\<rparr>\<rparr> 0)
   \<and> 0.05 < \<bar>(3602879701896397 / 2 ^ 56 :: real) - 0\<bar>
   \<and> \<not> isArea [''establishment''] None"
proof -
  have s1: "coord_span 1.05 1 = Num (225179981368525 / 2 ^ 52)"
    by (simp add: coord_span_def js_sub_def binary64_eval)
  have s2: "coord_span (3602879701896397 / 2 ^ 56) 0 = Num (3602879701896397 / 2 ^ 56)"
    by (simp add: coord_span_def js_sub_def binary64_eval)
  have s3: "coord_span 3 3 = Num 0"
    by (simp add: coord_span_def js_sub_def binary64_eval)
  have no: "\<not> list_ex (\<lambda>type. list_ex (str_includes type) areaTokens) [''establishment'']"
    by (simp add: areaTokens_def)
  show ?thesis
    apply (intro conjI)
    subgoal using no s1 s3 threshold by (simp add: is_area_transformCandidate isArea_def nullish0_def)
    subgoal by simp
    subgoal by simp
    subgoal using no s2 s3 threshold by (simp add: is_area_transformCandidate isArea_def nullish0_def)
    subgoal by simp
    subgoal using no by (simp add: isArea_def)
    done
qed

text \<open>
  C5. Every result that \<^verbatim>\<open>search\<close> returns comes from a response with a success status; it
  has one candidate for each place of the response, whose \<^verbatim>\<open>is_area\<close> flag is \<^verbatim>\<open>isArea\<close> of
  the type tags and the viewport of that place, and \<^verbatim>\<open>resolved\<close> is true exactly when there
  is one candidate and it is no area, that is, exactly when the response holds one place and
  that place is no area. A response with a list of places gives such a result. So a
  response with one place that has no type tag containing an area token and no viewport
  span above the threshold is resolved; no place, several places, or a single area place
  are not.
\<close>

theorem search_resolved_iff:
  "(search fetch query maxResults languageCode = (logged, Inr result) \<longrightarrow>
      (\<exists>response ps. fetch = Resolved response \<and> ok response
         \<and> (body response = JsonNull \<and> ps = []
            \<or> (\<exists>payload. body response = Json payload
                  \<and> ps = (case places payload of None \<Rightarrow> [] | Some l \<Rightarrow> l)))
         \<and> length (candidates result) = length ps
         \<and> (\<forall>i < length ps. is_area (candidates result ! i)
               = isArea (case types (ps ! i) of None \<Rightarrow> [] | Some ts \<Rightarrow> ts) (viewport (ps ! i)))
         \<and> (resolved result \<longleftrightarrow> (\<exists>c. candidates result = [c] \<and> \<not> is_area c))
         \<and> (resolved result \<longleftrightarrow>
               (\<exists>p. ps = [p]
                  \<and> \<not> isArea (case types p of None \<Rightarrow> [] | Some ts \<Rightarrow> ts) (viewport p)))))
   \<and> (ok response \<and> body response = Json payload \<and> places payload = Some places_list \<longrightarrow>
        snd (search (Resolved response) query maxResults languageCode)
          = Inr \<lparr>resolved =
                   (\<exists>p. places_list = [p]
                      \<and> \<not> isArea (case types p of None \<Rightarrow> [] | Some ts \<Rightarrow> ts) (viewport p)),
                 candidates = transformCandidates places_list\<rparr>)
   \<and> (ok response \<and> body response = Json payload \<and> places payload = Some [place]
        \<and> (\<forall>t \<in> set (case types place of None \<Rightarrow> [] | Some ts \<Rightarrow> ts).
              \<forall>token \<in> set areaTokens. \<not> sublist token t)
        \<and> (\<forall>v l h. viewport place = Some v \<and> low v = Some l \<and> high v = Some h \<longrightarrow>
              \<not> js_greater (coord_span (nullish0 (latitude h)) (nullish0 (latitude l))) (binary64 0.05)
            \<and> \<not> js_greater (coord_span (nullish0 (longitude h)) (nullish0 (longitude l)))
                   (binary64 0.05))
      \<longrightarrow> (\<exists>result. snd (search (Resolved response) query maxResults languageCode) = Inr result
            \<and> resolved result \<and> length (candidates result) = 1))"
proof (intro conjI impI)
  assume a: "search fetch query maxResults languageCode = (logged, Inr result)"
  from search_try_shape [OF search_Inr [OF a]] obtain response ps
    where sh: "fetch = Resolved response" "ok response"
      "body response = JsonNull \<and> ps = []
         \<or> (\<exists>payload. body response = Json payload
               \<and> ps = (case places payload of None \<Rightarrow> [] | Some l \<Rightarrow> l))"
      "candidates result = transformCandidates ps"
    by blast
  have len: "length (candidates result) = length ps"
    by (simp add: sh(4) length_transformCandidates)
  have flags: "\<forall>i < length ps. is_area (candidates result ! i)
               = isArea (case types (ps ! i) of None \<Rightarrow> [] | Some ts \<Rightarrow> ts) (viewport (ps ! i))"
    by (simp add: sh(4) nth_transformCandidates is_area_transformCandidate)
  have r1: "resolved result \<longleftrightarrow> (\<exists>c. candidates result = [c] \<and> \<not> is_area c)"
    by (rule search_try_resolved [OF search_Inr [OF a]])
  have r2: "resolved result \<longleftrightarrow>
               (\<exists>p. ps = [p]
                  \<and> \<not> isArea (case types p of None \<Rightarrow> [] | Some ts \<Rightarrow> ts) (viewport p))"
    unfolding r1 sh(4) by (rule one_precise_candidate)
  from sh(1-3) len flags r1 r2
  show "\<exists>response ps. fetch = Resolved response \<and> ok response
         \<and> (body response = JsonNull \<and> ps = []
            \<or> (\<exists>payload. body response = Json payload
                  \<and> ps = (case places payload of None \<Rightarrow> [] | Some l \<Rightarrow> l)))
         \<and> length (candidates result) = length ps
         \<and> (\<forall>i < length ps. is_area (candidates result ! i)
               = isArea (case types (ps ! i) of None \<Rightarrow> [] | Some ts \<Rightarrow> ts) (viewport (ps ! i)))
         \<and> (resolved result \<longleftrightarrow> (\<exists>c. candidates result = [c] \<and> \<not> is_area c))
         \<and> (resolved result \<longleftrightarrow>
               (\<exists>p. ps = [p]
                  \<and> \<not> isArea (case types p of None \<Rightarrow> [] | Some ts \<Rightarrow> ts) (viewport p)))"
    by blast
next
  assume a: "ok response \<and> body response = Json payload \<and> places payload = Some places_list"
  then show "snd (search (Resolved response) query maxResults languageCode)
          = Inr \<lparr>resolved =
                   (\<exists>p. places_list = [p]
                      \<and> \<not> isArea (case types p of None \<Rightarrow> [] | Some ts \<Rightarrow> ts) (viewport p)),
                 candidates = transformCandidates places_list\<rparr>"
    using search_ok_places [of response payload places_list query maxResults languageCode]
    by (simp only: one_precise_place)
next
  assume a: "ok response \<and> body response = Json payload \<and> places payload = Some [place]
        \<and> (\<forall>t \<in> set (case types place of None \<Rightarrow> [] | Some ts \<Rightarrow> ts).
              \<forall>token \<in> set areaTokens. \<not> sublist token t)
        \<and> (\<forall>v l h. viewport place = Some v \<and> low v = Some l \<and> high v = Some h \<longrightarrow>
              \<not> js_greater (coord_span (nullish0 (latitude h)) (nullish0 (latitude l))) (binary64 0.05)
            \<and> \<not> js_greater (coord_span (nullish0 (longitude h)) (nullish0 (longitude l)))
                   (binary64 0.05))"
  then have "\<not> isArea (case types place of None \<Rightarrow> [] | Some ts \<Rightarrow> ts) (viewport place)"
    unfolding isArea_iff by blast
  moreover from a have "snd (search (Resolved response) query maxResults languageCode)
     = Inr \<lparr>resolved = (length [place] = 1 \<and> \<not> is_area (transformCandidate ([place] ! 0) 0)),
            candidates = transformCandidates [place]\<rparr>"
    using search_ok_places [of response payload "[place]" query maxResults languageCode] by blast
  ultimately show "\<exists>result. snd (search (Resolved response) query maxResults languageCode) = Inr result
            \<and> resolved result \<and> length (candidates result) = 1"
    by (simp add: is_area_transformCandidate length_transformCandidates)
qed

text \<open>The first test of the repository: one precise candidate, and the search is resolved.
  The same place twice: two candidates, and it is not.\<close>

theorem search_resolved_iff_witness:
  "(\<exists>result. snd (search (Resolved (ok_response (Json \<lparr>places_error_message = None,
                      places = Some [cafe]\<rparr>))) ''Cafe 123'' None None) = Inr result
       \<and> resolved result \<and> length (candidates result) = 1)
   \<and> snd (search (Resolved (ok_response (Json \<lparr>places_error_message = None,
                      places = Some [cafe, cafe]\<rparr>))) ''Cafe 123'' None None)
       = Inr \<lparr>resolved = False, candidates = transformCandidates [cafe, cafe]\<rparr>"
proof -
  let ?one = "\<lparr>places_error_message = None, places = Some [cafe]\<rparr>"
  let ?two = "\<lparr>places_error_message = None, places = Some [cafe, cafe]\<rparr>"
  have h1: "ok (ok_response (Json ?one)) \<and> body (ok_response (Json ?one)) = Json ?one
      \<and> places ?one = Some [cafe]
      \<and> (\<forall>t \<in> set (case types cafe of None \<Rightarrow> [] | Some ts \<Rightarrow> ts).
              \<forall>token \<in> set areaTokens. \<not> sublist token t)
      \<and> (\<forall>v l h. viewport cafe = Some v \<and> low v = Some l \<and> high v = Some h \<longrightarrow>
              \<not> js_greater (coord_span (nullish0 (latitude h)) (nullish0 (latitude l)))
                   (binary64 0.05)
            \<and> \<not> js_greater (coord_span (nullish0 (longitude h)) (nullish0 (longitude l)))
                   (binary64 0.05))"
    by (simp add: ok_response_def cafe_def areaTokens_def sublist_code)
  have h2: "ok (ok_response (Json ?two)) \<and> body (ok_response (Json ?two)) = Json ?two
      \<and> places ?two = Some [cafe, cafe]"
    by (simp add: ok_response_def)
  note a = search_resolved_iff
    [of _ "''Cafe 123''" None None _ _ "ok_response (Json ?one)" ?one _ cafe,
     THEN conjunct2, THEN conjunct2, THEN mp, OF h1]
  note b = search_resolved_iff
    [of _ "''Cafe 123''" None None _ _ "ok_response (Json ?two)" ?two "[cafe, cafe]",
     THEN conjunct2, THEN conjunct1, THEN mp, OF h2]
  from a b show ?thesis by simp
qed

lemma extractPlaceId_prefix:
  "raw_name place = Some (''places/'' @ rest) \<Longrightarrow> extractPlaceId place = rest"
  by (simp add: extractPlaceId_def)

lemma extractPlaceId_no_prefix:
  assumes "\<forall>rest. raw_name place \<noteq> Some (''places/'' @ rest)"
  shows "extractPlaceId place = (case raw_id place of None \<Rightarrow> [] | Some x \<Rightarrow> x)"
proof (cases "raw_name place")
  case None
  then show ?thesis by (simp add: extractPlaceId_def or_str_def split: option.splits)
next
  case (Some n)
  with assms have "\<not> prefix ''places/'' n" by (auto simp: prefix_def)
  with Some show ?thesis by (simp add: extractPlaceId_def or_str_def split: option.splits)
qed

lemma transformCandidate_name:
  "name (transformCandidate place index) =
     or_str (displayName_text place) (or_str (raw_name place) (''Candidate '' @ show_nat (index + 1)))"
  by (simp add: transformCandidate_def Let_def)

text \<open>
  C7. When the backend answers with a list of raw places, \<^verbatim>\<open>search\<close> returns one candidate
  for each, and the candidate at position \<open>i\<close> has: as identifier the resource name without
  its \<^verbatim>\<open>places/\<close> prefix when the name starts with it, else the raw id (empty when there is
  none); as name the display-name text when there is a non-empty one, else the non-empty raw
  name, else \<^verbatim>\<open>Candidate\<close> followed by \<open>i + 1\<close>; as address the formatted address or the
  empty string; as coordinates those of the location, 0 for each one absent; as types the
  type list or the empty one.
\<close>

theorem candidate_fields:
  assumes "ok response" and "body response = Json payload" and "places payload = Some ps"
    and "i < length ps"
  shows "\<exists>result. snd (search (Resolved response) query maxResults languageCode) = Inr result
     \<and> length (candidates result) = length ps
     \<and> (let place = ps ! i; c = candidates result ! i in
          (\<forall>rest. raw_name place = Some (''places/'' @ rest) \<longrightarrow> place_id c = rest)
        \<and> ((\<forall>rest. raw_name place \<noteq> Some (''places/'' @ rest))
              \<longrightarrow> place_id c = (case raw_id place of None \<Rightarrow> [] | Some x \<Rightarrow> x))
        \<and> (\<forall>t. displayName_text place = Some t \<and> t \<noteq> [] \<longrightarrow> name c = t)
        \<and> (\<forall>n. (displayName_text place = None \<or> displayName_text place = Some [])
                 \<and> raw_name place = Some n \<and> n \<noteq> [] \<longrightarrow> name c = n)
        \<and> ((displayName_text place = None \<or> displayName_text place = Some [])
              \<and> (raw_name place = None \<or> raw_name place = Some [])
              \<longrightarrow> name c = ''Candidate '' @ show_nat (i + 1))
        \<and> formatted_address c = (case formattedAddress place of None \<Rightarrow> [] | Some a \<Rightarrow> a)
        \<and> c_lat c = (case location place of None \<Rightarrow> 0
                       | Some l \<Rightarrow> (case latitude l of None \<Rightarrow> 0 | Some v \<Rightarrow> v))
        \<and> c_lng c = (case location place of None \<Rightarrow> 0
                       | Some l \<Rightarrow> (case longitude l of None \<Rightarrow> 0 | Some v \<Rightarrow> v))
        \<and> c_types c = (case types place of None \<Rightarrow> [] | Some ts \<Rightarrow> ts))"
proof -
  let ?c = "transformCandidate (ps ! i) i"
  have id1: "\<forall>rest. raw_name (ps ! i) = Some (''places/'' @ rest) \<longrightarrow> place_id ?c = rest"
    using extractPlaceId_prefix by (simp add: transformCandidate_def Let_def)
  have id2: "(\<forall>rest. raw_name (ps ! i) \<noteq> Some (''places/'' @ rest))
      \<longrightarrow> place_id ?c = (case raw_id (ps ! i) of None \<Rightarrow> [] | Some x \<Rightarrow> x)"
    using extractPlaceId_no_prefix by (simp add: transformCandidate_def Let_def)
  have n1: "\<forall>t. displayName_text (ps ! i) = Some t \<and> t \<noteq> [] \<longrightarrow> name ?c = t"
    by (simp add: transformCandidate_name or_str_def)
  have n2: "\<forall>n. (displayName_text (ps ! i) = None \<or> displayName_text (ps ! i) = Some [])
                 \<and> raw_name (ps ! i) = Some n \<and> n \<noteq> [] \<longrightarrow> name ?c = n"
    by (auto simp: transformCandidate_name or_str_def)
  have n3: "(displayName_text (ps ! i) = None \<or> displayName_text (ps ! i) = Some [])
              \<and> (raw_name (ps ! i) = None \<or> raw_name (ps ! i) = Some [])
              \<longrightarrow> name ?c = ''Candidate '' @ show_nat (i + 1)"
    by (auto simp: transformCandidate_name or_str_def)
  have rest: "formatted_address ?c = (case formattedAddress (ps ! i) of None \<Rightarrow> [] | Some a \<Rightarrow> a)"
    "c_lat ?c = (case location (ps ! i) of None \<Rightarrow> 0
                       | Some l \<Rightarrow> (case latitude l of None \<Rightarrow> 0 | Some v \<Rightarrow> v))"
    "c_lng ?c = (case location (ps ! i) of None \<Rightarrow> 0
                       | Some l \<Rightarrow> (case longitude l of None \<Rightarrow> 0 | Some v \<Rightarrow> v))"
    "c_types ?c = (case types (ps ! i) of None \<Rightarrow> [] | Some ts \<Rightarrow> ts)"
    by (simp_all add: transformCandidate_def Let_def or_str_def nullish0_def split: option.splits)
  from id1 id2 n1 n2 n3 rest assms show ?thesis
    by (simp add: search_ok_places [OF assms(1-3)] length_transformCandidates
          nth_transformCandidates Let_def)
qed

text \<open>The place of the first test (\<^verbatim>\<open>places/abc\<close> gives \<^verbatim>\<open>abc\<close>), followed by a place that
  has an id and nothing else (\<^verbatim>\<open>xyz\<close>, \<^verbatim>\<open>Candidate 2\<close>).\<close>

theorem candidate_fields_witness:
  "\<exists>result. snd (search (Resolved (ok_response (Json \<lparr>places_error_message = None,
        places = Some [cafe, \<lparr>raw_name = None, raw_id = Some ''xyz'', displayName_text = None,
          formattedAddress = None, location = None, types = None, viewport = None\<rparr>]\<rparr>)))
        ''Cafe'' None None) = Inr result
     \<and> map place_id (candidates result) = [''abc'', ''xyz'']
     \<and> map name (candidates result) = [''Cafe 123'', ''Candidate 2'']
     \<and> map formatted_address (candidates result) = [''123 Main St'', []]
     \<and> map c_lat (candidates result) = [1.1, 0] \<and> map c_lng (candidates result) = [2.2, 0]
     \<and> map c_types (candidates result) = [ [''point_of_interest'', ''establishment''], [] ]"
proof -
  let ?anon = "\<lparr>raw_name = None, raw_id = Some ''xyz'', displayName_text = None,
          formattedAddress = None, location = None, types = None, viewport = None\<rparr>"
  let ?pay = "\<lparr>places_error_message = None, places = Some [cafe, ?anon]\<rparr>"
  have h: "ok (ok_response (Json ?pay))" "body (ok_response (Json ?pay)) = Json ?pay"
    "places ?pay = Some [cafe, ?anon]"
    by (simp_all add: ok_response_def)
  from candidate_fields [OF h, of 0 "''Cafe''" None None]
       candidate_fields [OF h, of 1 "''Cafe''" None None]
  show ?thesis
    by (auto simp: Let_def cafe_def length_Suc_conv show_nat.simps digit_char_def)
qed

text \<open>
  C10. A response with a success status whose body is \<^verbatim>\<open>null\<close>, or has no \<^verbatim>\<open>places\<close>, or
  an empty \<^verbatim>\<open>places\<close> list, makes \<^verbatim>\<open>search\<close> return \<^verbatim>\<open>{resolved: false, candidates: []}\<close>;
  nothing is thrown. The route resolver differs: a success response without a route makes
  the preferred path throw, and so does the fallback path.
\<close>

theorem empty_places_is_no_error:
  "(ok response \<and> (body response = JsonNull
        \<or> (\<exists>payload. body response = Json payload
              \<and> (places payload = None \<or> places payload = Some [])))
      \<longrightarrow> snd (search (Resolved response) query maxResults languageCode)
            = Inr \<lparr>resolved = False, candidates = []\<rparr>)
   \<and> (ok r_response \<and> (body r_response = JsonNull
        \<or> (\<exists>payload. body r_response = Json payload
              \<and> (routes payload = None \<or> routes payload = Some [])))
      \<longrightarrow> computeRoutesPreferred (Resolved r_response) params
            = Inl (Error ''Routes Preferred API returned no routes''))
   \<and> (ok d_response \<and> body d_response = Json data
        \<and> (directions_routes data = None \<or> directions_routes data = Some [])
      \<longrightarrow> computeDirectionsFallback (Resolved d_response) params
            = Inl (Error (''Directions API error: '' @ or_str (directions_status data) ''UNKNOWN'')))"
  by (auto simp: search_def search_try_def Let_def transformCandidates_def
        computeRoutesPreferred_def computeDirectionsFallback_def directions_error_def)

theorem empty_places_is_no_error_witness:
  "snd (search (Resolved (ok_response (Json \<lparr>places_error_message = None, places = Some []\<rparr>)))
          ''nowhere'' None None)
     = Inr \<lparr>resolved = False, candidates = []\<rparr>
   \<and> computeRoutesPreferred (Resolved (ok_response (Json \<lparr>error_message = None, routes = Some []\<rparr>)))
        test_params
     = Inl (Error ''Routes Preferred API returned no routes'')
   \<and> computeDirectionsFallback (Resolved (ok_response (Json \<lparr>directions_error_message = None,
          directions_status = Some ''ZERO_RESULTS'', directions_routes = Some []\<rparr>)))
        test_params
     = Inl (Error ''Directions API error: ZERO_RESULTS'')"
  using empty_places_is_no_error
    [of "ok_response (Json \<lparr>places_error_message = None, places = Some []\<rparr>)"
        "''nowhere''" None None
        "ok_response (Json \<lparr>error_message = None, routes = Some []\<rparr>)"
        test_params
        "ok_response (Json \<lparr>directions_error_message = None,
          directions_status = Some ''ZERO_RESULTS'', directions_routes = Some []\<rparr>)"
        "\<lparr>directions_error_message = None,
          directions_status = Some ''ZERO_RESULTS'', directions_routes = Some []\<rparr>"]
  by (simp add: or_str_def ok_response_def)

section \<open>Properties of RoutesService\<close>

lemma map_idx_Inr:
  "(\<And>i. i < length xs \<Longrightarrow> f (k + i) (xs ! i) = Inr (g (k + i) (xs ! i)))
   \<Longrightarrow> map_idx f k xs = Inr (map (\<lambda>(i, x). g i x) (enumerate k xs))"
proof (induction xs arbitrary: k)
  case Nil
  then show ?case by simp
next
  case (Cons x xs)
  have hd: "f k x = Inr (g k x)" using Cons.prems [of 0] by simp
  have "\<And>i. i < length xs \<Longrightarrow> f (Suc k + i) (xs ! i) = Inr (g (Suc k + i) (xs ! i))"
    using Cons.prems [of "Suc i" for i] by simp
  then have "map_idx f (Suc k) xs = Inr (map (\<lambda>(i, x). g i x) (enumerate (Suc k) xs))"
    by (rule Cons.IH)
  with hd show ?case by simp
qed

lemma map_idx_length: "map_idx f k xs = Inr ys \<Longrightarrow> length ys = length xs"
  by (induction xs arbitrary: k ys) (auto split: sum.splits)

lemma length_ordered_points: "length (ordered_points params order) = length order + 2"
  by (simp add: ordered_points_def)

lemma ordered_points_first: "js_index (ordered_points params order) 0 = Some (origin params)"
  by (simp add: js_index_def ordered_points_def)

lemma ordered_points_last:
  "js_index (ordered_points params order) (Suc (length order)) = Some (destination params)"
  by (simp add: js_index_def ordered_points_def nth_append)

lemma mapLeg_ordered_points:
  "mapLeg (ordered_points params order) idx leg = Inr (leg_of params order idx leg)"
proof -
  let ?pts = "ordered_points params order"
  have s: "or_point (js_index ?pts idx) (js_index ?pts 0) = Some (leg_start params order idx)"
    by (simp add: or_point_def leg_start_def ordered_points_first split: option.splits)
  have e: "or_point (js_index ?pts (idx + 1)) (js_index ?pts (Suc (length order)))
             = Some (leg_end params order idx)"
    by (simp add: or_point_def leg_end_def ordered_points_last split: option.splits)
  from s e show ?thesis
    by (simp add: mapLeg_def Let_def normalizePoint_def leg_of_def length_ordered_points)
qed

lemma mapLegs_ordered_points:
  "mapLegs legsFromApi (ordered_points params order)
     = Inr (map (\<lambda>(idx, leg). leg_of params order idx leg) (enumerate 0 legsFromApi))"
  unfolding mapLegs_def
  by (rule map_idx_Inr) (simp add: mapLeg_ordered_points)

lemma leg_start_clamped: "length order + 2 \<le> idx \<Longrightarrow> leg_start params order idx = origin params"
  by (simp add: leg_start_def js_index_def length_ordered_points)

lemma leg_end_clamped: "length order + 2 \<le> idx + 1 \<Longrightarrow> leg_end params order idx = destination params"
  by (simp add: leg_end_def js_index_def length_ordered_points)

lemma leg_start_in_range:
  "idx < length order + 2 \<Longrightarrow> ordered_points params order ! idx = Some p
   \<Longrightarrow> leg_start params order idx = p"
  by (simp add: leg_start_def js_index_def length_ordered_points)

lemma leg_end_in_range:
  "idx + 1 < length order + 2 \<Longrightarrow> ordered_points params order ! (idx + 1) = Some p
   \<Longrightarrow> leg_end params order idx = p"
  by (simp add: leg_end_def js_index_def length_ordered_points)

text \<open>
  C9. On the ordered points of a request (the origin, a point for every entry of the index
  sequence, the destination), \<^verbatim>\<open>mapLegs\<close> returns a leg for every leg of the backend's
  list, however long that list is and whatever the index sequence holds; it never throws.
  Leg \<open>idx\<close> starts from ordered point \<open>idx\<close> and ends at ordered point \<open>idx + 1\<close>; a
  start index past the ordered points gives the origin, the first ordered point, and an end
  index past them gives the destination, the last one. A missing distance is 0 and a
  missing duration is 0.
\<close>

theorem mapLegs_total:
  "mapLegs legsFromApi (ordered_points params order)
     = Inr (map (\<lambda>(idx, leg).
                 \<lparr>start_label = or_str (label (leg_start params order idx))
                                  (defaultLabel idx (length order + 2)),
                  end_label = or_str (label (leg_end params order idx))
                                (defaultLabel (idx + 1) (length order + 2)),
                  leg_distance_meters = (case distanceMeters leg of None \<Rightarrow> 0 | Some d \<Rightarrow> d),
                  leg_duration_seconds = (case duration leg of None \<Rightarrow> Num 0
                                          | Some d \<Rightarrow> parseDurationSeconds (Some d))\<rparr>)
              (enumerate 0 legsFromApi))
   \<and> (\<forall>idx. length order + 2 \<le> idx \<longrightarrow> leg_start params order idx = origin params)
   \<and> (\<forall>idx. length order + 2 \<le> idx + 1 \<longrightarrow> leg_end params order idx = destination params)
   \<and> (\<forall>idx p. idx < length order + 2 \<and> ordered_points params order ! idx = Some p
         \<longrightarrow> leg_start params order idx = p)
   \<and> (\<forall>idx p. idx + 1 < length order + 2 \<and> ordered_points params order ! (idx + 1) = Some p
         \<longrightarrow> leg_end params order idx = p)"
proof -
  have "leg_of params order idx leg =
          \<lparr>start_label = or_str (label (leg_start params order idx))
                                  (defaultLabel idx (length order + 2)),
                  end_label = or_str (label (leg_end params order idx))
                                (defaultLabel (idx + 1) (length order + 2)),
                  leg_distance_meters = (case distanceMeters leg of None \<Rightarrow> 0 | Some d \<Rightarrow> d),
                  leg_duration_seconds = (case duration leg of None \<Rightarrow> Num 0
                                          | Some d \<Rightarrow> parseDurationSeconds (Some d))\<rparr>" for idx leg
    by (simp add: leg_of_def or_number_def parseDurationSeconds_def split: option.splits)
  then show ?thesis
    using mapLegs_ordered_points [of legsFromApi params order]
      leg_start_clamped leg_end_clamped leg_start_in_range leg_end_in_range
    by simp
qed

text \<open>Three legs for the two ordered points of a request without waypoints: the second leg
  ends past the points, the third starts past them.\<close>

theorem mapLegs_total_witness:
  "mapLegs [no_leg, \<lparr>distanceMeters = Some 3000, duration = Some ''250s''\<rparr>, no_leg]
      (ordered_points test_params [])
     = Inr [\<lparr>start_label = ''Origin'', end_label = ''Destination'',
             leg_distance_meters = 0, leg_duration_seconds = Num 0\<rparr>,
            \<lparr>start_label = ''Destination'', end_label = ''Destination'',
             leg_distance_meters = 3000, leg_duration_seconds = Num 250\<rparr>,
            \<lparr>start_label = ''Origin'', end_label = ''Destination'',
             leg_distance_meters = 0, leg_duration_seconds = Num 0\<rparr>]
   \<and> leg_start test_params [] 2 = origin test_params
   \<and> leg_end test_params [] 1 = destination test_params"
  using mapLegs_total [of "[no_leg, \<lparr>distanceMeters = Some 3000, duration = Some ''250s''\<rparr>, no_leg]"
      test_params "[]"]
  by (simp add: no_leg_def leg_start_def leg_end_def js_index_def ordered_points_def or_str_def
        test_params_def parseDurationSeconds_def in_class_def is_digit_def parseFloat_def
        digits_val_def digit_val_def binary64_eval)

lemma map_idx_normalize:
  "map_idx (\<lambda>idx point. normalizePoint point idx n) k (map Some ps)
     = Inr (map (\<lambda>(idx, p). \<lparr>o_label = or_str (label p) (defaultLabel idx n),
                              o_lat = lat p, o_lng = lng p\<rparr>) (enumerate k ps))"
  by (induction ps arbitrary: k) (simp_all add: normalizePoint_def)

lemma ordered_points_valid:
  assumes "valid_order params order"
  shows "ordered_points params order
     = map Some (origin params # map (\<lambda>i. waypoints params ! nat i) order @ [destination params])"
proof -
  have "map (js_nth (waypoints params)) order = map (\<lambda>i. Some (waypoints params ! nat i)) order"
    using assms by (auto simp: valid_order_def js_nth_def list_all_iff)
  then show ?thesis by (simp add: ordered_points_def comp_def)
qed

lemma normalize_ordered_points:
  assumes "valid_order params order"
  shows "map_idx (\<lambda>idx point. normalizePoint point idx (length (ordered_points params order)))
            0 (ordered_points params order)
     = Inr (labelled (origin params # map (\<lambda>i. waypoints params ! nat i) order @ [destination params]))"
  unfolding ordered_points_valid [OF assms] map_idx_normalize
  by (simp add: labelled_def)

lemma valid_identity_order: "valid_order params (identity_order params)"
  by (simp add: valid_order_def identity_order_def list_all_iff)

lemma identity_order_points:
  "map (\<lambda>i. waypoints params ! nat i) (identity_order params) = waypoints params"
  by (simp add: identity_order_def comp_def map_nth)

lemma preferred_route_result:
  assumes "ok response" "body response = Json payload" "routes payload = Some (route # others)"
  shows "computeRoutesPreferred (Resolved response) params =
     (case map_idx (\<lambda>idx point. normalizePoint point idx (length (preferred_order params route) + 2))
             0 (ordered_points params (preferred_order params route)) of
        Inl e \<Rightarrow> Inl e
      | Inr ps \<Rightarrow>
          Inr \<lparr>polyline = or_str (encodedPolyline route) [],
               ordered = ps,
               distance_meters =
                 or_computed (route_distanceMeters route)
                   (sumDistances (map (\<lambda>(idx, leg). leg_of params (preferred_order params route) idx leg)
                                   (enumerate 0 (preferred_legs route)))),
               duration_seconds = parseDurationSeconds (route_duration route),
               legs = map (\<lambda>(idx, leg). leg_of params (preferred_order params route) idx leg)
                        (enumerate 0 (preferred_legs route)),
               source = routes_preferred\<rparr>)"
  using assms
  by (simp add: computeRoutesPreferred_def Let_def mapLegs_ordered_points length_ordered_points
        preferred_order_def preferred_legs_def split: sum.splits)

lemma fallback_route_result:
  assumes "ok response" "body response = Json data" "directions_status data = Some ''OK''"
    "directions_routes data = Some (route # others)"
  shows "computeDirectionsFallback (Resolved response) params =
     (case map_idx (\<lambda>idx point. normalizePoint point idx (length (fallback_order params route) + 2))
             0 (ordered_points params (fallback_order params route)) of
        Inl e \<Rightarrow> Inl e
      | Inr ps \<Rightarrow>
          Inr \<lparr>polyline = or_str (overview_polyline_points route) [],
               ordered = ps,
               distance_meters =
                 sumDistances (map (\<lambda>(idx, leg). leg_of params (fallback_order params route) idx leg)
                                   (enumerate 0 (fallback_legs route))),
               duration_seconds =
                 sumDurations (map (\<lambda>(idx, leg). leg_of params (fallback_order params route) idx leg)
                                   (enumerate 0 (fallback_legs route))),
               legs = map (\<lambda>(idx, leg). leg_of params (fallback_order params route) idx leg)
                        (enumerate 0 (fallback_legs route)),
               source = directions_fallback\<rparr>)"
  using assms
  by (simp add: computeDirectionsFallback_def Let_def mapLegs_ordered_points length_ordered_points
        fallback_order_def fallback_legs_def split: sum.splits)

lemma fallback_success_shape:
  assumes "computeDirectionsFallback fetch params = Inr result"
  shows "\<exists>response data route others. fetch = Resolved response \<and> ok response
      \<and> body response = Json data \<and> directions_status data = Some ''OK''
      \<and> directions_routes data = Some (route # others)"
  using assms
  by (auto simp: computeDirectionsFallback_def split: fetched.splits if_splits body.splits
        option.splits list.splits)

lemma preferred_success_shape:
  assumes "computeRoutesPreferred fetch params = Inr result"
  shows "\<exists>response payload route others. fetch = Resolved response \<and> ok response
      \<and> body response = Json payload \<and> routes payload = Some (route # others)"
  using assms
  by (auto simp: computeRoutesPreferred_def Let_def split: fetched.splits if_splits body.splits
        option.splits list.splits)

lemmas route_eval = binary64_eval or_computed_def computeRoutesPreferred_def computeDirectionsFallback_def mapLegs_def mapLeg_def
  normalizePoint_def ordered_points_def identity_order_def js_nth_def js_index_def or_point_def
  or_str_def or_number_def or_nat_def defaultLabel_def sumDistances_def sumDurations_def
  directions_leg_def directions_error_def safeParse_def Let_def
  parseDurationSeconds_def in_class_def is_digit_def parseFloat_def digits_val_def digit_val_def
  show_nat.simps digit_char_def ok_response_def
  test_params_def test_waypoints_def test_route_def test_preferred_def test_preferred_500_def
  test_directions_route_def test_fallback_def test_fallback_403_def

lemma run_preferred:
  "computeRoutesPreferred test_preferred test_params =
     Inr \<lparr>polyline = ''abc123'',
          ordered = [\<lparr>o_label = ''Origin'', o_lat = 1, o_lng = 2\<rparr>,
                     \<lparr>o_label = ''Stop B'', o_lat = 3, o_lng = 4\<rparr>,
                     \<lparr>o_label = ''Stop A'', o_lat = 2, o_lng = 3\<rparr>,
                     \<lparr>o_label = ''Destination'', o_lat = 4, o_lng = 5\<rparr>],
          distance_meters = Num 12000, duration_seconds = Num 800,
          legs = [\<lparr>start_label = ''Origin'', end_label = ''Stop B'',
                    leg_distance_meters = 4000, leg_duration_seconds = Num 250\<rparr>,
                  \<lparr>start_label = ''Stop B'', end_label = ''Stop A'',
                    leg_distance_meters = 5000, leg_duration_seconds = Num 300\<rparr>,
                  \<lparr>start_label = ''Stop A'', end_label = ''Destination'',
                    leg_distance_meters = 3000, leg_duration_seconds = Num 250\<rparr>],
          source = routes_preferred\<rparr>"
  by (simp add: route_eval)

lemma run_preferred_500:
  "computeRoutesPreferred test_preferred_500 test_params
     = Inl (Error ''Routes Preferred API error: boom (HTTP 500)'')"
  by (simp add: route_eval)

lemma run_fallback:
  "computeDirectionsFallback test_fallback test_params =
     Inr \<lparr>polyline = ''fallback'',
          ordered = [\<lparr>o_label = ''Origin'', o_lat = 1, o_lng = 2\<rparr>,
                     \<lparr>o_label = ''Stop B'', o_lat = 3, o_lng = 4\<rparr>,
                     \<lparr>o_label = ''Stop A'', o_lat = 2, o_lng = 3\<rparr>,
                     \<lparr>o_label = ''Destination'', o_lat = 4, o_lng = 5\<rparr>],
          distance_meters = Num 12000, duration_seconds = Num 750,
          legs = [\<lparr>start_label = ''Origin'', end_label = ''Stop B'',
                    leg_distance_meters = 3000, leg_duration_seconds = Num 200\<rparr>,
                  \<lparr>start_label = ''Stop B'', end_label = ''Stop A'',
                    leg_distance_meters = 4000, leg_duration_seconds = Num 250\<rparr>,
                  \<lparr>start_label = ''Stop A'', end_label = ''Destination'',
                    leg_distance_meters = 5000, leg_duration_seconds = Num 300\<rparr>],
          source = directions_fallback\<rparr>"
  by (simp add: route_eval)

lemma run_fallback_403:
  "computeDirectionsFallback test_fallback_403 test_params
     = Inl (Error ''Directions API HTTP error 403: Forbidden'')"
  by (simp add: route_eval)

lemma preferred_success:
  assumes "computeRoutesPreferred preferred params = Inr result"
  shows "\<exists>response payload route others.
           preferred = Resolved response \<and> ok response \<and> body response = Json payload
         \<and> routes payload = Some (route # others)
         \<and> source result = routes_preferred
         \<and> length (legs result) = length (preferred_legs route)
         \<and> length (ordered result) = length (preferred_order params route) + 2"
proof -
  from preferred_success_shape [OF assms] obtain response payload route others
    where sh: "preferred = Resolved response" "ok response" "body response = Json payload"
      "routes payload = Some (route # others)"
    by blast
  from assms have "source result = routes_preferred
         \<and> length (legs result) = length (preferred_legs route)
         \<and> length (ordered result) = length (preferred_order params route) + 2"
    unfolding sh(1) preferred_route_result [OF sh(2-4)]
    by (auto split: sum.splits dest: map_idx_length simp: length_ordered_points)
  with sh show ?thesis by blast
qed

lemma fallback_success:
  assumes "computeDirectionsFallback fallback params = Inr result"
  shows "\<exists>response data route others.
           fallback = Resolved response \<and> ok response \<and> body response = Json data
         \<and> directions_status data = Some ''OK''
         \<and> directions_routes data = Some (route # others)
         \<and> source result = directions_fallback
         \<and> length (legs result) = length (fallback_legs route)
         \<and> length (ordered result) = length (fallback_order params route) + 2"
proof -
  from fallback_success_shape [OF assms] obtain response data route others
    where sh: "fallback = Resolved response" "ok response" "body response = Json data"
      "directions_status data = Some ''OK''" "directions_routes data = Some (route # others)"
    by blast
  from assms have "source result = directions_fallback
         \<and> length (legs result) = length (fallback_legs route)
         \<and> length (ordered result) = length (fallback_order params route) + 2"
    unfolding sh(1) fallback_route_result [OF sh(2-5)]
    by (auto split: sum.splits dest: map_idx_length simp: length_ordered_points)
  with sh show ?thesis by blast
qed

text \<open>
  C1, amended. Every result of \<^verbatim>\<open>optimizeRoute\<close> comes from the first route of the
  preferred backend's response, or, the preferred path having failed, from the first route of
  the fallback backend's response. It has one leg for each leg of that route (none when the
  route has no \<^verbatim>\<open>legs\<close>) and two ordered points more than the index sequence used has
  entries, so \<^verbatim>\<open>legs.length == ordered.length - 1\<close> holds exactly when the backend returns
  one leg more than the index sequence has entries. A result of the preferred backend has
  the source tag \<^verbatim>\<open>routes_preferred\<close>, one of the fallback backend \<^verbatim>\<open>directions_fallback\<close>.
\<close>

theorem legs_follow_backend_legs:
  "(computeRoutesPreferred (Resolved response) params = Inr result
      \<and> body response = Json payload \<and> routes payload = Some (route # others)
     \<longrightarrow> optimizeRoute (Resolved response) fallback params = ([Invoke_preferred params], Inr result)
         \<and> source result = routes_preferred
         \<and> length (legs result) = length (preferred_legs route)
         \<and> length (ordered result) = length (preferred_order params route) + 2)
   \<and> (computeRoutesPreferred preferred params = Inl e
      \<and> computeDirectionsFallback (Resolved d_response) params = Inr d_result
      \<and> body d_response = Json data \<and> directions_routes data = Some (d_route # d_others)
     \<longrightarrow> snd (optimizeRoute preferred (Resolved d_response) params) = Inr d_result
         \<and> source d_result = directions_fallback
         \<and> length (legs d_result) = length (fallback_legs d_route)
         \<and> length (ordered d_result) = length (fallback_order params d_route) + 2)
   \<and> (snd (optimizeRoute preferred fallback params) = Inr r
     \<longrightarrow> (computeRoutesPreferred preferred params = Inr r
          \<and> (\<exists>response payload route others. preferred = Resolved response
                \<and> body response = Json payload \<and> routes payload = Some (route # others)))
       \<or> ((\<exists>e. computeRoutesPreferred preferred params = Inl e)
          \<and> computeDirectionsFallback fallback params = Inr r
          \<and> (\<exists>response data route others. fallback = Resolved response
                \<and> body response = Json data \<and> directions_routes data = Some (route # others))))"
proof (intro conjI impI)
  assume a: "computeRoutesPreferred (Resolved response) params = Inr result
      \<and> body response = Json payload \<and> routes payload = Some (route # others)"
  then show "optimizeRoute (Resolved response) fallback params = ([Invoke_preferred params], Inr result)"
    by (simp add: optimizeRoute_def)
  from a preferred_success [of "Resolved response" params result]
  show "source result = routes_preferred"
    "length (legs result) = length (preferred_legs route)"
    "length (ordered result) = length (preferred_order params route) + 2"
    by auto
next
  assume a: "computeRoutesPreferred preferred params = Inl e
      \<and> computeDirectionsFallback (Resolved d_response) params = Inr d_result
      \<and> body d_response = Json data \<and> directions_routes data = Some (d_route # d_others)"
  then show "snd (optimizeRoute preferred (Resolved d_response) params) = Inr d_result"
    by (simp add: optimizeRoute_def)
  from a fallback_success [of "Resolved d_response" params d_result]
  show "source d_result = directions_fallback"
    "length (legs d_result) = length (fallback_legs d_route)"
    "length (ordered d_result) = length (fallback_order params d_route) + 2"
    by auto
next
  assume a: "snd (optimizeRoute preferred fallback params) = Inr r"
  show "(computeRoutesPreferred preferred params = Inr r
          \<and> (\<exists>response payload route others. preferred = Resolved response
                \<and> body response = Json payload \<and> routes payload = Some (route # others)))
       \<or> ((\<exists>e. computeRoutesPreferred preferred params = Inl e)
          \<and> computeDirectionsFallback fallback params = Inr r
          \<and> (\<exists>response data route others. fallback = Resolved response
                \<and> body response = Json data \<and> directions_routes data = Some (route # others)))"
  proof (cases "computeRoutesPreferred preferred params")
    case (Inr r')
    with a have "r' = r" by (simp add: optimizeRoute_def)
    with Inr preferred_success_shape [of preferred params r] show ?thesis by blast
  next
    case (Inl e)
    with a have "computeDirectionsFallback fallback params = Inr r"
      by (simp add: optimizeRoute_def)
    with Inl fallback_success_shape [of fallback params r] show ?thesis by blast
  qed
qed

text \<open>The two tests of the repository: three legs and four ordered points, from either
  backend.\<close>

theorem legs_follow_backend_legs_witness:
  "(\<exists>result. optimizeRoute test_preferred test_fallback test_params
               = ([Invoke_preferred test_params], Inr result)
     \<and> source result = routes_preferred
     \<and> length (legs result) = 3 \<and> length (ordered result) = 4)
   \<and> (\<exists>result. snd (optimizeRoute test_preferred_500 test_fallback test_params) = Inr result
     \<and> source result = directions_fallback
     \<and> length (legs result) = 3 \<and> length (ordered result) = 4)"
proof -
  let ?payload = "\<lparr>error_message = None, routes = Some [test_route]\<rparr>"
  let ?data = "\<lparr>directions_error_message = None, directions_status = Some ''OK'',
                directions_routes = Some [test_directions_route]\<rparr>"
  obtain result where run: "computeRoutesPreferred test_preferred test_params = Inr result"
    using run_preferred by blast
  have h: "computeRoutesPreferred (Resolved (ok_response (Json ?payload))) test_params = Inr result
      \<and> body (ok_response (Json ?payload)) = Json ?payload
      \<and> routes ?payload = Some (test_route # [])"
    using run by (simp add: test_preferred_def ok_response_def)
  note t = legs_follow_backend_legs
    [of "ok_response (Json ?payload)" test_params result ?payload test_route "[]" test_fallback,
     THEN conjunct1, THEN mp, OF h]
  have n: "length (preferred_legs test_route) = 3"
    "length (preferred_order test_params test_route) + 2 = 4"
    by (simp_all add: preferred_legs_def preferred_order_def test_route_def)
  from t have p: "\<exists>result. optimizeRoute test_preferred test_fallback test_params
               = ([Invoke_preferred test_params], Inr result)
     \<and> source result = routes_preferred
     \<and> length (legs result) = 3 \<and> length (ordered result) = 4"
    unfolding n test_preferred_def [symmetric] by blast
  obtain d_result where d_run: "computeDirectionsFallback test_fallback test_params = Inr d_result"
    using run_fallback by blast
  have g: "computeRoutesPreferred test_preferred_500 test_params
        = Inl (Error ''Routes Preferred API error: boom (HTTP 500)'')
      \<and> computeDirectionsFallback (Resolved (ok_response (Json ?data))) test_params = Inr d_result
      \<and> body (ok_response (Json ?data)) = Json ?data
      \<and> directions_routes ?data = Some (test_directions_route # [])"
    using d_run run_preferred_500 by (simp add: test_fallback_def ok_response_def)
  note u = legs_follow_backend_legs
    [of _ test_params _ _ _ _ _ test_preferred_500
        "Error ''Routes Preferred API error: boom (HTTP 500)''" "ok_response (Json ?data)"
        d_result ?data test_directions_route "[]",
     THEN conjunct2, THEN conjunct1, THEN mp, OF g]
  have m: "length (fallback_legs test_directions_route) = 3"
    "length (fallback_order test_params test_directions_route) + 2 = 4"
    by (simp_all add: fallback_legs_def fallback_order_def test_directions_route_def)
  from u have f: "\<exists>result. snd (optimizeRoute test_preferred_500 test_fallback test_params) = Inr result
     \<and> source result = directions_fallback
     \<and> length (legs result) = 3 \<and> length (ordered result) = 4"
    unfolding m test_fallback_def [symmetric] by blast
  from p f show ?thesis by blast
qed

text \<open>The invariant \<^verbatim>\<open>legs.length == ordered.length - 1\<close> of C1 as stated fails when the
  route of the preferred backend comes without \<^verbatim>\<open>legs\<close>: no leg, four ordered points.\<close>

theorem legs_invariant_counterexample:
  "optimizeRoute
      (Resolved (ok_response (Json \<lparr>error_message = None, routes = Some [test_route_no_legs]\<rparr>)))
      test_fallback test_params
     = ([Invoke_preferred test_params],
        Inr \<lparr>polyline = ''abc123'',
             ordered = [\<lparr>o_label = ''Origin'', o_lat = 1, o_lng = 2\<rparr>,
                        \<lparr>o_label = ''Stop B'', o_lat = 3, o_lng = 4\<rparr>,
                        \<lparr>o_label = ''Stop A'', o_lat = 2, o_lng = 3\<rparr>,
                        \<lparr>o_label = ''Destination'', o_lat = 4, o_lng = 5\<rparr>],
             distance_meters = Num 12000, duration_seconds = Num 800,
             legs = [], source = routes_preferred\<rparr>)
   \<and> length ([] :: RouteLeg list)
       \<noteq> length [\<lparr>o_label = ''Origin'', o_lat = 1, o_lng = 2\<rparr>,
                   \<lparr>o_label = ''Stop B'', o_lat = 3, o_lng = 4\<rparr>,
                   \<lparr>o_label = ''Stop A'', o_lat = 2, o_lng = 3\<rparr>,
                   \<lparr>o_label = ''Destination'', o_lat = 4, o_lng = 5\<rparr>] - 1"
  by (simp add: optimizeRoute_def route_eval test_route_no_legs_def)

text \<open>
  C2. When the preferred backend answers with a route whose index sequence (the
  \<^verbatim>\<open>optimizedIntermediateWaypointIndex\<close>, or the identity order when it is absent) holds
  indices into the waypoint list, the result is the preferred one and its ordered points are
  the origin, the waypoints in the order of the sequence, the destination, each with its
  label. When the preferred path fails and the fallback backend answers \<^verbatim>\<open>OK\<close> with a
  route, the same holds with \<^verbatim>\<open>waypoint_order\<close>. The identity order gives the waypoints
  in the order of the request.
\<close>

theorem ordered_follows_index_sequence:
  "(ok response \<and> body response = Json payload \<and> routes payload = Some (route # others)
      \<and> valid_order params (preferred_order params route)
     \<longrightarrow> (\<exists>result. optimizeRoute (Resolved response) fallback params
                       = ([Invoke_preferred params], Inr result)
           \<and> source result = routes_preferred
           \<and> ordered result
               = labelled (origin params
                           # map (\<lambda>i. waypoints params ! nat i) (preferred_order params route)
                           @ [destination params])))
   \<and> ((\<exists>e. computeRoutesPreferred preferred params = Inl e)
      \<and> ok d_response \<and> body d_response = Json data \<and> directions_status data = Some ''OK''
      \<and> directions_routes data = Some (d_route # d_others)
      \<and> valid_order params (fallback_order params d_route)
     \<longrightarrow> (\<exists>result. snd (optimizeRoute preferred (Resolved d_response) params) = Inr result
           \<and> source result = directions_fallback
           \<and> ordered result
               = labelled (origin params
                           # map (\<lambda>i. waypoints params ! nat i) (fallback_order params d_route)
                           @ [destination params])))
   \<and> (\<forall>p. optimizedIntermediateWaypointIndex route = Some p \<longrightarrow> preferred_order params route = p)
   \<and> (\<forall>p. waypoint_order d_route = Some p \<longrightarrow> fallback_order params d_route = p)
   \<and> (optimizedIntermediateWaypointIndex route = None
        \<longrightarrow> preferred_order params route = identity_order params)
   \<and> (waypoint_order d_route = None \<longrightarrow> fallback_order params d_route = identity_order params)
   \<and> valid_order params (identity_order params)
   \<and> map (\<lambda>i. waypoints params ! nat i) (identity_order params) = waypoints params"
proof -
  have p: "\<exists>result. optimizeRoute (Resolved response) fallback params
                       = ([Invoke_preferred params], Inr result)
           \<and> source result = routes_preferred
           \<and> ordered result
               = labelled (origin params
                           # map (\<lambda>i. waypoints params ! nat i) (preferred_order params route)
                           @ [destination params])"
    if "ok response" "body response = Json payload" "routes payload = Some (route # others)"
      "valid_order params (preferred_order params route)"
    using normalize_ordered_points [OF that(4)]
    by (simp add: optimizeRoute_def preferred_route_result [OF that(1-3)] length_ordered_points)
  have f: "\<exists>result. snd (optimizeRoute preferred (Resolved d_response) params) = Inr result
           \<and> source result = directions_fallback
           \<and> ordered result
               = labelled (origin params
                           # map (\<lambda>i. waypoints params ! nat i) (fallback_order params d_route)
                           @ [destination params])"
    if "computeRoutesPreferred preferred params = Inl e"
      "ok d_response" "body d_response = Json data" "directions_status data = Some ''OK''"
      "directions_routes data = Some (d_route # d_others)"
      "valid_order params (fallback_order params d_route)" for e
    using normalize_ordered_points [OF that(6)] that(1)
    by (simp add: optimizeRoute_def fallback_route_result [OF that(2-5)] length_ordered_points)
  have d: "(\<forall>p. optimizedIntermediateWaypointIndex route = Some p \<longrightarrow> preferred_order params route = p)"
    "(\<forall>p. waypoint_order d_route = Some p \<longrightarrow> fallback_order params d_route = p)"
    "(optimizedIntermediateWaypointIndex route = None
        \<longrightarrow> preferred_order params route = identity_order params)"
    "(waypoint_order d_route = None \<longrightarrow> fallback_order params d_route = identity_order params)"
    by (simp_all add: preferred_order_def fallback_order_def)
  from p f d valid_identity_order [of params] identity_order_points [of params]
  show ?thesis by (intro conjI) blast+
qed

text \<open>The two tests of the repository: waypoints A, B and the sequence 1, 0 give the
  origin, B, A, the destination, from either backend.\<close>

theorem ordered_follows_index_sequence_witness:
  "(\<exists>result. optimizeRoute test_preferred test_fallback test_params
                 = ([Invoke_preferred test_params], Inr result)
       \<and> source result = routes_preferred
       \<and> ordered result = [\<lparr>o_label = ''Origin'', o_lat = 1, o_lng = 2\<rparr>,
                            \<lparr>o_label = ''Stop B'', o_lat = 3, o_lng = 4\<rparr>,
                            \<lparr>o_label = ''Stop A'', o_lat = 2, o_lng = 3\<rparr>,
                            \<lparr>o_label = ''Destination'', o_lat = 4, o_lng = 5\<rparr>])
   \<and> (\<exists>result. snd (optimizeRoute test_preferred_500 test_fallback test_params) = Inr result
       \<and> source result = directions_fallback
       \<and> ordered result = [\<lparr>o_label = ''Origin'', o_lat = 1, o_lng = 2\<rparr>,
                            \<lparr>o_label = ''Stop B'', o_lat = 3, o_lng = 4\<rparr>,
                            \<lparr>o_label = ''Stop A'', o_lat = 2, o_lng = 3\<rparr>,
                            \<lparr>o_label = ''Destination'', o_lat = 4, o_lng = 5\<rparr>])"
proof -
  let ?payload = "\<lparr>error_message = None, routes = Some [test_route]\<rparr>"
  let ?data = "\<lparr>directions_error_message = None, directions_status = Some ''OK'',
                directions_routes = Some [test_directions_route]\<rparr>"
  have pts: "labelled (origin test_params # map (\<lambda>i. waypoints test_params ! nat i) [1, 0]
                        @ [destination test_params])
      = [\<lparr>o_label = ''Origin'', o_lat = 1, o_lng = 2\<rparr>,
         \<lparr>o_label = ''Stop B'', o_lat = 3, o_lng = 4\<rparr>,
         \<lparr>o_label = ''Stop A'', o_lat = 2, o_lng = 3\<rparr>,
         \<lparr>o_label = ''Destination'', o_lat = 4, o_lng = 5\<rparr>]"
    by (simp add: labelled_def test_params_def test_waypoints_def or_str_def)
  have po: "preferred_order test_params test_route = [1, 0]"
    by (simp add: preferred_order_def test_route_def)
  have fo: "fallback_order test_params test_directions_route = [1, 0]"
    by (simp add: fallback_order_def test_directions_route_def)
  have v: "valid_order test_params [1, 0]"
    by (simp add: valid_order_def test_params_def test_waypoints_def)
  have hp: "ok (ok_response (Json ?payload)) \<and> body (ok_response (Json ?payload)) = Json ?payload
      \<and> routes ?payload = Some (test_route # [])
      \<and> valid_order test_params (preferred_order test_params test_route)"
    by (simp add: ok_response_def po v)
  have hf: "(\<exists>e. computeRoutesPreferred test_preferred_500 test_params = Inl e)
      \<and> ok (ok_response (Json ?data)) \<and> body (ok_response (Json ?data)) = Json ?data
      \<and> directions_status ?data = Some ''OK''
      \<and> directions_routes ?data = Some (test_directions_route # [])
      \<and> valid_order test_params (fallback_order test_params test_directions_route)"
    by (simp add: ok_response_def fo v run_preferred_500)
  note p = ordered_follows_index_sequence
    [of "ok_response (Json ?payload)" ?payload test_route "[]" test_params test_fallback,
     THEN conjunct1, THEN mp, OF hp]
  note f = ordered_follows_index_sequence
    [of _ _ _ _ test_params _ test_preferred_500 "ok_response (Json ?data)" ?data
        test_directions_route "[]",
     THEN conjunct2, THEN conjunct1, THEN mp, OF hf]
  from p f show ?thesis
    by (simp only: po fo pts test_preferred_def [symmetric] test_fallback_def [symmetric])
qed

lemma preferred_failures:
  "(\<forall>e. preferred = Rejected e \<longrightarrow> computeRoutesPreferred preferred params = Inl e)
   \<and> (\<forall>response. preferred = Resolved response \<and> \<not> ok response
         \<longrightarrow> (\<exists>e. computeRoutesPreferred preferred params = Inl e))
   \<and> (\<forall>response. preferred = Resolved response \<and> ok response \<and> body response = NotJson
         \<longrightarrow> (\<exists>e. computeRoutesPreferred preferred params = Inl e))
   \<and> (\<forall>response. preferred = Resolved response \<and> ok response
           \<and> (body response = JsonNull
              \<or> (\<exists>payload. body response = Json payload
                    \<and> (routes payload = None \<or> routes payload = Some [])))
         \<longrightarrow> (\<exists>e. computeRoutesPreferred preferred params = Inl e))"
  by (auto simp: computeRoutesPreferred_def Let_def)

text \<open>
  C3. Whenever the preferred path fails, with whatever error, \<^verbatim>\<open>optimizeRoute\<close> logs that
  error, invokes the fallback path once with the parameters it was given, and returns what
  the fallback path returns: its result, or its error, with nothing tried after it. When the
  preferred path succeeds the fallback path is not invoked. So \<^verbatim>\<open>optimizeRoute\<close> fails
  only if both paths fail, and then with the error of the fallback path. The preferred path
  fails on a rejected \<^verbatim>\<open>fetch\<close>, on a status that is no success, on a body that is no
  JSON, and on a missing or empty route list.
\<close>

theorem fallback_on_every_preferred_failure:
  "(\<forall>error. computeRoutesPreferred preferred params = Inl error \<longrightarrow>
       optimizeRoute preferred fallback params =
         ([Invoke_preferred params,
           Logger_error ''Routes Preferred failed, falling back to Directions API'' error,
           Invoke_fallback params],
          computeDirectionsFallback fallback params))
   \<and> (\<forall>result. computeRoutesPreferred preferred params = Inr result \<longrightarrow>
       optimizeRoute preferred fallback params = ([Invoke_preferred params], Inr result))
   \<and> (\<forall>e. snd (optimizeRoute preferred fallback params) = Inl e \<longrightarrow>
       (\<exists>e'. computeRoutesPreferred preferred params = Inl e')
       \<and> computeDirectionsFallback fallback params = Inl e)
   \<and> (\<forall>e. preferred = Rejected e \<longrightarrow> computeRoutesPreferred preferred params = Inl e)
   \<and> (\<forall>response. preferred = Resolved response \<and> \<not> ok response
         \<longrightarrow> (\<exists>e. computeRoutesPreferred preferred params = Inl e))
   \<and> (\<forall>response. preferred = Resolved response \<and> ok response \<and> body response = NotJson
         \<longrightarrow> (\<exists>e. computeRoutesPreferred preferred params = Inl e))
   \<and> (\<forall>response. preferred = Resolved response \<and> ok response
           \<and> (body response = JsonNull
              \<or> (\<exists>payload. body response = Json payload
                    \<and> (routes payload = None \<or> routes payload = Some [])))
         \<longrightarrow> (\<exists>e. computeRoutesPreferred preferred params = Inl e))"
proof -
  have a: "\<forall>error. computeRoutesPreferred preferred params = Inl error \<longrightarrow>
       optimizeRoute preferred fallback params =
         ([Invoke_preferred params,
           Logger_error ''Routes Preferred failed, falling back to Directions API'' error,
           Invoke_fallback params],
          computeDirectionsFallback fallback params)"
    by (simp add: optimizeRoute_def)
  have b: "\<forall>result. computeRoutesPreferred preferred params = Inr result \<longrightarrow>
       optimizeRoute preferred fallback params = ([Invoke_preferred params], Inr result)"
    by (simp add: optimizeRoute_def)
  have c: "\<forall>e. snd (optimizeRoute preferred fallback params) = Inl e \<longrightarrow>
       (\<exists>e'. computeRoutesPreferred preferred params = Inl e')
       \<and> computeDirectionsFallback fallback params = Inl e"
    by (auto simp: optimizeRoute_def split: sum.splits)
  from a b c preferred_failures [of preferred params] show ?thesis
    by (intro conjI) blast+
qed

text \<open>Both backends refuse; the preferred one answers; only the preferred one refuses; the
  request to the preferred one does not get through.\<close>

theorem fallback_on_every_preferred_failure_witness:
  "optimizeRoute test_preferred_500 test_fallback_403 test_params =
     ([Invoke_preferred test_params,
       Logger_error ''Routes Preferred failed, falling back to Directions API''
         (Error ''Routes Preferred API error: boom (HTTP 500)''),
       Invoke_fallback test_params],
      Inl (Error ''Directions API HTTP error 403: Forbidden''))
   \<and> fst (optimizeRoute test_preferred test_fallback_403 test_params) = [Invoke_preferred test_params]
   \<and> (\<exists>result. snd (optimizeRoute test_preferred_500 test_fallback test_params) = Inr result
         \<and> source result = directions_fallback)
   \<and> optimizeRoute (Rejected (TypeError ''fetch failed'')) test_fallback_403 test_params =
     ([Invoke_preferred test_params,
       Logger_error ''Routes Preferred failed, falling back to Directions API''
         (TypeError ''fetch failed''),
       Invoke_fallback test_params],
      Inl (Error ''Directions API HTTP error 403: Forbidden''))"
proof -
  note t1 = fallback_on_every_preferred_failure
    [of test_preferred_500 test_params test_fallback_403, THEN conjunct1, rule_format,
     OF run_preferred_500]
  note t2 = fallback_on_every_preferred_failure
    [of test_preferred test_params test_fallback_403, THEN conjunct2, THEN conjunct1, rule_format,
     OF run_preferred]
  note t3 = fallback_on_every_preferred_failure
    [of test_preferred_500 test_params test_fallback, THEN conjunct1, rule_format,
     OF run_preferred_500]
  have a: "optimizeRoute test_preferred_500 test_fallback_403 test_params =
     ([Invoke_preferred test_params,
       Logger_error ''Routes Preferred failed, falling back to Directions API''
         (Error ''Routes Preferred API error: boom (HTTP 500)''),
       Invoke_fallback test_params],
      Inl (Error ''Directions API HTTP error 403: Forbidden''))"
    using t1 by (simp only: run_fallback_403)
  have b: "fst (optimizeRoute test_preferred test_fallback_403 test_params) = [Invoke_preferred test_params]"
    by (simp only: t2 fst_conv)
  have c: "\<exists>result. snd (optimizeRoute test_preferred_500 test_fallback test_params) = Inr result
         \<and> source result = directions_fallback"
    by (simp add: t3 run_fallback)
  note t4 = fallback_on_every_preferred_failure
    [of "Rejected (TypeError ''fetch failed'')" test_params test_fallback_403,
     THEN conjunct2, THEN conjunct2, THEN conjunct2, THEN conjunct1, rule_format, OF refl]
  note t5 = fallback_on_every_preferred_failure
    [of "Rejected (TypeError ''fetch failed'')" test_params test_fallback_403,
     THEN conjunct1, rule_format, OF t4]
  have d: "optimizeRoute (Rejected (TypeError ''fetch failed'')) test_fallback_403 test_params =
     ([Invoke_preferred test_params,
       Logger_error ''Routes Preferred failed, falling back to Directions API''
         (TypeError ''fetch failed''),
       Invoke_fallback test_params],
      Inl (Error ''Directions API HTTP error 403: Forbidden''))"
    using t5 by (simp only: run_fallback_403)
  from a b c d show ?thesis by blast
qed

subsection \<open>Durations\<close>

lemma not_in_class_s: "\<not> in_class CHR ''s''"
  by (simp add: in_class_def is_digit_def)

lemma not_digit_dot: "\<not> is_digit CHR ''.''"
  by (simp add: is_digit_def)

lemma is_digit_in_class: "is_digit c \<Longrightarrow> in_class c"
  by (simp add: in_class_def)

lemma regex_exec_run:
  assumes "m \<noteq> []" and "list_all in_class m"
  shows "regex_exec (m @ CHR ''s'' # rest) = Some m"
proof -
  from assms(1) obtain c cs where m: "m = c # cs" by (cases m) auto
  have all: "\<And>x. x \<in> set m \<Longrightarrow> in_class x" using assms(2) by (simp add: list_all_iff)
  have tw: "takeWhile in_class (m @ CHR ''s'' # rest) = m"
    using all by (simp add: not_in_class_s)
  have dw: "dropWhile in_class (m @ CHR ''s'' # rest) = CHR ''s'' # rest"
    using all by (simp add: not_in_class_s)
  have "regex_exec ((c # cs) @ CHR ''s'' # rest) = Some (c # cs)"
    using tw dw unfolding m by (simp add: Let_def del: takeWhile.simps dropWhile.simps)
  then show ?thesis by (simp add: m)
qed

lemma digits_val_Nil: "digits_val [] = 0"
  by (simp add: digits_val_def)

lemma digits_val_snoc: "digits_val (ds @ [c]) = 10 * digits_val ds + digit_val c"
  by (simp add: digits_val_def)

lemma parseFloat_digits:
  assumes "ds \<noteq> []" and "list_all is_digit ds"
  shows "parseFloat ds = binary64 (of_nat (digits_val ds))"
proof -
  have tw: "takeWhile is_digit ds = ds" and dw: "dropWhile is_digit ds = []"
    using assms(2) by (simp_all add: list_all_iff)
  from assms(1) show ?thesis
    unfolding parseFloat_def Let_def tw dw by (simp add: digits_val_Nil)
qed

lemma parseFloat_decimal:
  assumes "ds \<noteq> [] \<or> fs \<noteq> []" and "list_all is_digit ds" and "list_all is_digit fs"
  shows "parseFloat (ds @ CHR ''.'' # fs)
           = binary64 (of_nat (digits_val ds) + of_nat (digits_val fs) / 10 ^ length fs)"
proof -
  have a: "\<And>x. x \<in> set ds \<Longrightarrow> is_digit x" using assms(2) by (simp add: list_all_iff)
  have tw: "takeWhile is_digit (ds @ CHR ''.'' # fs) = ds"
    using a by (simp add: not_digit_dot)
  have dw: "dropWhile is_digit (ds @ CHR ''.'' # fs) = CHR ''.'' # fs"
    using a by (simp add: not_digit_dot)
  have fw: "takeWhile is_digit fs = fs" using assms(3) by (simp add: list_all_iff)
  from assms(1) show ?thesis
    unfolding parseFloat_def Let_def tw dw by (auto simp: fw)
qed

lemma Math_round_nat: "Math_round (Num (of_nat n)) = Num (of_nat n)"
proof -
  have "\<lfloor>(of_nat n :: real) + 1 / 2\<rfloor> = int n" by linarith
  then show ?thesis by simp
qed

lemma digit_cases: "d < 10 \<Longrightarrow> d \<in> {0, 1, 2, 3, 4, 5, 6, 7, 8, 9::nat}"
  by auto

lemma digit_char_props:
  assumes "d < 10"
  shows "is_digit (digit_char d)" and "digit_val (digit_char d) = d"
  using digit_cases [OF assms]
  by (auto simp: digit_char_def is_digit_def digit_val_def)

lemma show_nat_digits: "list_all is_digit (show_nat n)"
proof (induction n rule: show_nat.induct)
  case (1 n)
  show ?case
  proof (cases "n < 10")
    case True
    then show ?thesis by (subst show_nat.simps) (simp add: digit_char_props)
  next
    case False
    with 1 show ?thesis by (subst show_nat.simps) (simp add: digit_char_props)
  qed
qed

lemma show_nat_not_Nil: "show_nat n \<noteq> []"
  by (subst show_nat.simps) simp

lemma digits_val_show_nat: "digits_val (show_nat n) = n"
proof (induction n rule: show_nat.induct)
  case (1 n)
  show ?case
  proof (cases "n < 10")
    case True
    then show ?thesis
      by (subst show_nat.simps) (simp add: digits_val_def digit_char_props)
  next
    case False
    with 1 show ?thesis
      by (subst show_nat.simps) (simp add: digits_val_snoc digit_char_props)
  qed
qed

lemma parseDurationSeconds_run:
  assumes "m \<noteq> []" and "list_all in_class m"
  shows "parseDurationSeconds (Some (m @ ''s'')) = Math_round (parseFloat m)"
  using regex_exec_run [OF assms, of "[]"] by (simp add: parseDurationSeconds_def)

lemma regex_exec_no_match:
  assumes "\<forall>i. Suc i < length d \<longrightarrow> in_class (d ! i) \<longrightarrow> d ! Suc i \<noteq> CHR ''s''"
  shows "regex_exec d = None"
  using assms
proof (induction d)
  case Nil
  then show ?case by simp
next
  case (Cons c cs)
  let ?run = "takeWhile in_class (c # cs)"
  let ?rest = "dropWhile in_class (c # cs)"
  have tail: "\<forall>i. Suc i < length cs \<longrightarrow> in_class (cs ! i) \<longrightarrow> cs ! Suc i \<noteq> CHR ''s''"
  proof (intro allI impI)
    fix i
    assume "Suc i < length cs" "in_class (cs ! i)"
    with Cons.prems [rule_format, of "Suc i"] show "cs ! Suc i \<noteq> CHR ''s''" by simp
  qed
  have no: "\<not> (?run \<noteq> [] \<and> (case ?rest of [] \<Rightarrow> False | r # _ \<Rightarrow> r = CHR ''s''))"
  proof
    assume h: "?run \<noteq> [] \<and> (case ?rest of [] \<Rightarrow> False | r # _ \<Rightarrow> r = CHR ''s'')"
    then obtain rs where rest: "?rest = CHR ''s'' # rs" by (auto split: list.splits)
    from h obtain k where k: "length ?run = Suc k" by (cases ?run) auto
    have split: "c # cs = ?run @ ?rest" by (simp del: takeWhile.simps dropWhile.simps)
    have len: "Suc k < length (c # cs)"
      by (subst split) (simp add: k rest del: takeWhile.simps dropWhile.simps)
    have "?run ! k = (c # cs) ! k"
      by (rule takeWhile_nth) (simp only: k lessI)
    moreover have "?run ! k \<in> set ?run" by (rule nth_mem) (simp only: k lessI)
    ultimately have cls: "in_class ((c # cs) ! k)"
      using set_takeWhileD [of "?run ! k" in_class "c # cs"] by simp
    have "?rest ! 0 = (c # cs) ! (0 + length ?run)"
      by (rule dropWhile_nth) (simp only: rest length_Cons zero_less_Suc)
    then have "(c # cs) ! Suc k = CHR ''s''"
      by (simp only: rest nth_Cons_0 k add_0)
    with Cons.prems [rule_format, of k] len cls show False by blast
  qed
  have "regex_exec (c # cs) =
      (if ?run \<noteq> [] \<and> (case ?rest of [] \<Rightarrow> False | r # _ \<Rightarrow> r = CHR ''s'')
       then Some ?run else regex_exec cs)"
    by (simp only: regex_exec.simps Let_def)
  also have "\<dots> = regex_exec cs"
    using no by (rule if_not_P)
  finally have "regex_exec (c # cs) = regex_exec cs" .
  with Cons.IH [OF tail] show ?case by simp
qed

lemma halvings_bounds:
  "1 \<le> x \<Longrightarrow> 2 ^ halvings x \<le> x \<and> x < 2 ^ Suc (halvings x)"
proof (induction x rule: halvings.induct)
  case (1 x)
  show ?case
  proof (cases "2 \<le> x")
    case True
    then have "1 \<le> x / 2" by simp
    with 1 True have "2 ^ halvings (x / 2) \<le> x / 2 \<and> x / 2 < 2 ^ Suc (halvings (x / 2))"
      by blast
    moreover have "halvings x = Suc (halvings (x / 2))"
      using True by (subst halvings.simps) simp
    ultimately show ?thesis by simp
  next
    case False
    then have "halvings x = 0" by (subst halvings.simps) simp
    with False 1 show ?thesis by simp
  qed
qed

lemma round_even_of_int: "round_even (of_int m) = m"
  by (simp add: round_even_def)

text \<open>The natural numbers up to \<open>2\<^sup>5\<^sup>3\<close> are doubles.\<close>

lemma binary64_of_nat:
  assumes "n \<le> 2 ^ 53"
  shows "binary64 (of_nat n) = Num (of_nat n)"
proof (cases "n = 0")
  case True
  then show ?thesis by (simp add: binary64_def)
next
  case False
  define x :: real where "x = of_nat n"
  define k where "k = halvings x"
  from False have x1: "1 \<le> x" by (simp add: x_def)
  from halvings_bounds [OF x1] have lo: "2 ^ k \<le> x" and hi: "x < 2 ^ Suc k"
    by (simp_all add: k_def)
  have x53: "x \<le> 2 ^ 53" using assms unfolding x_def
    by (metis of_nat_le_iff of_nat_numeral of_nat_power)
  have "(2::real) ^ k \<le> 2 ^ 53" using lo x53 by linarith
  moreover have "(1::real) < 2" by simp
  ultimately have k53: "k \<le> 53" by (rule power_le_imp_le_exp [rotated])
  have e: "max (binade \<bar>x\<bar>) (- 1022) = int k"
    using x1 by (simp add: binade_def k_def)
  define q :: real where "q = 2 powi (int k - 52)"
  have q0: "q \<noteq> 0" by (simp add: q_def)
  have "\<exists>m. x / q = of_int m"
  proof (cases "k \<le> 52")
    case True
    then have "q = 1 / 2 ^ (52 - k)"
      by (simp add: q_def power_int_diff power_diff)
    then have "x / q = of_int (int n * 2 ^ (52 - k))"
      by (simp add: x_def)
    then show ?thesis by blast
  next
    case False
    with k53 have k: "k = 53" by simp
    with lo x53 have x: "x = 2 ^ 53" by simp
    have "x / q = of_int (2 ^ 52)" by (simp add: q_def k x)
    then show ?thesis by blast
  qed
  then obtain m where m: "x / q = of_int m" by blast
  have "of_int (round_even (x / q)) * q = (x / q) * q"
    by (simp only: m round_even_of_int)
  also have "\<dots> = x" using q0 by simp
  finally have exact: "of_int (round_even (x / 2 powi (int k - 52))) * 2 powi (int k - 52) = x"
    by (simp only: q_def)
  have small: "\<not> (2::real) ^ 1024 \<le> x"
  proof -
    have "(2::real) ^ 53 < 2 ^ 1024" by (rule power_strict_increasing) simp_all
    with x53 show ?thesis by linarith
  qed
  have "x \<noteq> 0" "\<bar>x\<bar> = x" "sgn x = 1" using x1 by simp_all
  with small have "binary64 x = Num x"
    unfolding binary64_def Let_def e by (simp add: exact)
  then show ?thesis by (simp add: x_def)
qed

lemma parseDurationSeconds_digits:
  assumes "ds \<noteq> []" "list_all is_digit ds"
  shows "parseDurationSeconds (Some (ds @ ''s''))
           = Math_round (binary64 (of_nat (digits_val ds)))"
proof -
  from assms(2) have "list_all in_class ds" by (simp add: list_all_iff is_digit_in_class)
  from parseDurationSeconds_run [OF assms(1) this] show ?thesis
    by (simp add: parseFloat_digits [OF assms])
qed

lemma parseDurationSeconds_point:
  assumes "ds \<noteq> [] \<or> fs \<noteq> []" "list_all is_digit ds" "list_all is_digit fs"
  shows "parseDurationSeconds (Some (ds @ ''.'' @ fs @ ''s''))
           = Math_round (binary64 (of_nat (digits_val ds)
                                   + of_nat (digits_val fs) / 10 ^ length fs))"
proof -
  from assms(2,3) have "list_all in_class (ds @ CHR ''.'' # fs)"
    by (auto simp: list_all_iff in_class_def)
  from parseDurationSeconds_run [OF _ this] show ?thesis
    by (simp add: parseFloat_decimal [OF assms])
qed

text \<open>
  C4, amended. For a duration string made of a non-negative decimal numeral and \<^verbatim>\<open>s\<close>
  (digits, or digits, a dot and digits, one of the two digit groups possibly empty),
  \<^verbatim>\<open>parseDurationSeconds\<close> returns the double nearest to the value of the numeral (a tie
  going to the even one, an infinity past the doubles), rounded to the nearest integer, a tie
  going up. For the decimal text of a natural number \<open>n\<close> up to \<open>2\<^sup>5\<^sup>3\<close> followed by \<^verbatim>\<open>s\<close>
  it returns \<open>n\<close>, and \<^verbatim>\<open>"800s"\<close> gives 800. A missing, \<^verbatim>\<open>null\<close> or empty duration gives 0,
  and so does every string in which no digit or dot is directly followed by \<^verbatim>\<open>s\<close>.
\<close>

theorem parseDurationSeconds_decimal:
  "(\<forall>ds. ds \<noteq> [] \<and> list_all is_digit ds
       \<longrightarrow> parseDurationSeconds (Some (ds @ ''s''))
           = Math_round (binary64 (of_nat (digits_val ds))))
   \<and> (\<forall>ds fs. (ds \<noteq> [] \<or> fs \<noteq> []) \<and> list_all is_digit ds \<and> list_all is_digit fs
       \<longrightarrow> parseDurationSeconds (Some (ds @ ''.'' @ fs @ ''s''))
           = Math_round (binary64 (of_nat (digits_val ds)
                                   + of_nat (digits_val fs) / 10 ^ length fs)))
   \<and> (\<forall>x. Math_round (Num x) = Num (of_int (round x)))
   \<and> (\<forall>n. list_all is_digit (show_nat n) \<and> digits_val (show_nat n) = n)
   \<and> (\<forall>n. n \<le> 2 ^ 53 \<longrightarrow> parseDurationSeconds (Some (show_nat n @ ''s'')) = Num (of_nat n))
   \<and> parseDurationSeconds (Some ''800s'') = Num 800
   \<and> parseDurationSeconds None = Num 0
   \<and> parseDurationSeconds (Some []) = Num 0
   \<and> (\<forall>d. (\<forall>i. Suc i < length d \<longrightarrow> in_class (d ! i) \<longrightarrow> d ! Suc i \<noteq> CHR ''s'')
       \<longrightarrow> parseDurationSeconds (Some d) = Num 0)"
proof -
  note int_case = parseDurationSeconds_digits
  note dec_case = parseDurationSeconds_point
  have rnd: "Math_round (Num x) = Num (of_int (round x))" for x
    by (simp add: round_def)
  have digits: "list_all is_digit (show_nat n) \<and> digits_val (show_nat n) = n" for n
    by (simp add: show_nat_digits digits_val_show_nat)
  have nat_case: "parseDurationSeconds (Some (show_nat n @ ''s'')) = Num (of_nat n)"
    if "n \<le> 2 ^ 53" for n
    using int_case [OF show_nat_not_Nil show_nat_digits, of n]
    by (simp add: digits_val_show_nat binary64_of_nat [OF that] Math_round_nat)
  have t800: "parseDurationSeconds (Some ''800s'') = Num 800"
    by (simp add: parseDurationSeconds_def in_class_def is_digit_def parseFloat_def
          digits_val_def digit_val_def binary64_eval)
  have none: "parseDurationSeconds None = Num 0" "parseDurationSeconds (Some []) = Num 0"
    by (simp_all add: parseDurationSeconds_def)
  have nomatch: "parseDurationSeconds (Some d) = Num 0"
    if "\<forall>i. Suc i < length d \<longrightarrow> in_class (d ! i) \<longrightarrow> d ! Suc i \<noteq> CHR ''s''" for d
    using regex_exec_no_match [OF that] by (simp add: parseDurationSeconds_def)
  from int_case dec_case rnd digits nat_case t800 none nomatch show ?thesis
    by (intro conjI allI impI) blast+
qed

text \<open>A tie, a whole number of seconds, and a string without a number.\<close>

theorem parseDurationSeconds_decimal_witness:
  "parseDurationSeconds (Some ''12.5s'') = Num 13
   \<and> parseDurationSeconds (Some ''250s'') = Num 250
   \<and> parseDurationSeconds (Some ''soon'') = Num 0"
proof -
  have v: "digits_val ''12'' = 12" "digits_val ''5'' = 5"
    by (simp_all add: digits_val_def digit_val_def)
  have r: "Math_round (binary64 (12 + 5 / 10)) = Num 13"
    by (simp add: binary64_eval)
  have a: "parseDurationSeconds (Some ''12.5s'') = Num 13"
    using parseDurationSeconds_decimal [THEN conjunct2, THEN conjunct1, rule_format, of "''12''" "''5''"] r
    by (simp add: v is_digit_def)
  have s: "show_nat 250 = ''250''"
    by (simp add: show_nat.simps digit_char_def)
  have b: "parseDurationSeconds (Some ''250s'') = Num 250"
    using parseDurationSeconds_decimal [THEN conjunct2, THEN conjunct2, THEN conjunct2,
        THEN conjunct2, THEN conjunct1, rule_format, of 250]
    by (simp add: s)
  have nm: "\<forall>i. Suc i < length ''soon'' \<longrightarrow> in_class (''soon'' ! i) \<longrightarrow> ''soon'' ! Suc i \<noteq> CHR ''s''"
    by (simp add: All_less_Suc in_class_def is_digit_def less_Suc_eq nth_Cons')
  have c: "parseDurationSeconds (Some ''soon'') = Num 0"
    using parseDurationSeconds_decimal [THEN conjunct2, THEN conjunct2, THEN conjunct2,
        THEN conjunct2, THEN conjunct2, THEN conjunct2, THEN conjunct2, THEN conjunct2,
        rule_format, of "''soon''"] nm
    by blast
  from a b c show ?thesis by blast
qed

text \<open>C4 as stated fails on a negative number, whose sign is not read; on a string that
  matches the regular expression without holding a number, which gives \<^verbatim>\<open>NaN\<close>; on a
  number past \<open>2\<^sup>5\<^sup>3\<close> that is no double; and on a numeral below one half whose nearest
  double is one half.\<close>

theorem parseDurationSeconds_counterexample:
  "parseDurationSeconds (Some ''-5s'') = Num 5
   \<and> Num 5 \<noteq> Num (of_int (round (- 5 :: real)))
   \<and> parseDurationSeconds (Some ''.s'') = NaN
   \<and> NaN \<noteq> Num 0
   \<and> parseDurationSeconds (Some ''9007199254740993s'') = Num 9007199254740992
   \<and> parseDurationSeconds (Some ''0.49999999999999999s'') = Num 1
   \<and> round (0.49999999999999999 :: real) = 0"
proof -
  have a: "parseDurationSeconds (Some ''-5s'') = Num 5"
    "parseDurationSeconds (Some ''.s'') = NaN"
    by (simp_all add: parseDurationSeconds_def in_class_def is_digit_def parseFloat_def
        digits_val_def digit_val_def binary64_eval)
  have v: "digits_val ''9007199254740993'' = 9007199254740993"
    "digits_val ''0'' = 0" "digits_val ''49999999999999999'' = 49999999999999999"
    by (simp_all add: digits_val_def digit_val_def)
  have r: "binary64 9007199254740993 = Num 9007199254740992"
    by (simp add: binary64_eval)
  have b: "parseDurationSeconds (Some ''9007199254740993s'') = Num 9007199254740992"
    using parseDurationSeconds_digits [of "''9007199254740993''"]
    by (simp add: v r is_digit_def)
  have r': "binary64 (49999999999999999 / 10 ^ 17) = Num (1 / 2)"
    by (simp add: binary64_eval)
  have c: "parseDurationSeconds (Some ''0.49999999999999999s'') = Num 1"
    using parseDurationSeconds_point [of "''0''" "''49999999999999999''"] r'
    by (simp add: v is_digit_def)
  have d: "round (0.49999999999999999 :: real) = 0"
    by (simp add: round_def)
  from a b c d show ?thesis by simp
qed

section \<open>Errors that reach the caller\<close>

lemma search_failure_message:
  assumes "\<not> ok response"
  shows "snd (search (Resolved response) query maxResults languageCode) =
     Inl (Error (''Places text search failed: ''
                 @ (case body response of
                      Json payload \<Rightarrow>
                        (case places_error_message payload of
                           Some m \<Rightarrow> if m = [] then statusText response else m
                         | None \<Rightarrow> statusText response)
                    | _ \<Rightarrow> statusText response)
                 @ '' (HTTP '' @ show_nat (status response) @ '')''))"
  using assms
  by (auto simp: search_def search_try_def Let_def safeParse_def or_str_def
        split: body.splits option.splits)

lemma preferred_failure_message:
  assumes "\<not> ok response"
  shows "computeRoutesPreferred (Resolved response) params =
     Inl (Error (''Routes Preferred API error: ''
                 @ (case body response of
                      Json payload \<Rightarrow>
                        (case error_message payload of
                           Some m \<Rightarrow> if m = [] then statusText response else m
                         | None \<Rightarrow> statusText response)
                    | _ \<Rightarrow> statusText response)
                 @ '' (HTTP '' @ show_nat (status response) @ '')''))"
  using assms
  by (auto simp: computeRoutesPreferred_def Let_def safeParse_def or_str_def
        split: body.splits option.splits)

lemma fallback_failure_message:
  assumes "\<not> ok response"
  shows "computeDirectionsFallback (Resolved response) params =
     Inl (Error (''Directions API HTTP error '' @ show_nat (status response) @ '': ''
                 @ statusText response))"
  using assms by (simp add: computeDirectionsFallback_def)

text \<open>
  C8 at the input where the code departs from it. Both routing backends refuse, the fallback
  one with status 403 and \<^verbatim>\<open>{error: {message: "API key invalid"}}\<close> in its body: the error
  that reaches the caller has the status code and the status text, not the message of the
  provider. The place search given the same response keeps the message.
\<close>

theorem fallback_error_without_provider_message:
  "snd (optimizeRoute test_preferred_500 test_fallback_403 test_params)
     = Inl (Error ''Directions API HTTP error 403: Forbidden'')
   \<and> \<not> str_includes ''Directions API HTTP error 403: Forbidden'' ''API key invalid''
   \<and> snd (search test_places_403 ''bad'' None None)
     = Inl (Error ''Places text search failed: API key invalid (HTTP 403)'')
   \<and> str_includes ''Places text search failed: API key invalid (HTTP 403)'' ''API key invalid''"
proof -
  have a: "snd (optimizeRoute test_preferred_500 test_fallback_403 test_params)
     = Inl (Error ''Directions API HTTP error 403: Forbidden'')"
    by (simp add: optimizeRoute_def run_preferred_500 run_fallback_403)
  have b: "\<not> str_includes ''Directions API HTTP error 403: Forbidden'' ''API key invalid''"
    by simp
  have c: "snd (search test_places_403 ''bad'' None None)
     = Inl (Error ''Places text search failed: API key invalid (HTTP 403)'')"
    by (simp add: search_eval test_places_403_def show_nat.simps digit_char_def)
  have d: "str_includes ''Places text search failed: API key invalid (HTTP 403)'' ''API key invalid''"
    by simp
  from a b c d show ?thesis by blast
qed

end
